theory Spec2Isabelle
  imports Main "HOL-Library.Word"
begin

section \<open>Global state of the backend: key codec and dispatch (routes/global\_state.go)\<close>

text \<open>
  A Go byte slice is modelled by its contents, a list of 8-bit words; the nil slice and the
  empty slice are both the empty list. A Go string whose bytes the code inspects (a
  username, a phone number) is the list of its bytes, as Go stores it; messages, URLs and
  configuration values are HOL strings.
\<close>

type_synonym byte = "8 word"
type_synonym bytes = "byte list"
type_synonym gostring = "byte list"

subsection \<open>The key prefixes\<close>

text \<open>The package-level variables of lines 71-120, without their leading underscore.\<close>

definition GlobalStatePrefixPublicKeyToUserMetadata :: bytes where
  "GlobalStatePrefixPublicKeyToUserMetadata = [0]"

definition GlobalStatePrefixTstampNanosPostHash :: bytes where
  "GlobalStatePrefixTstampNanosPostHash = [1]"

definition GlobalStatePrefixPhoneNumberToPhoneNumberMetadata :: bytes where
  "GlobalStatePrefixPhoneNumberToPhoneNumberMetadata = [2]"

definition GlobalStatePrefixForVerifiedMap :: bytes where
  "GlobalStatePrefixForVerifiedMap = [3]"

definition GlobalStatePrefixTstampNanosPinnedPostHash :: bytes where
  "GlobalStatePrefixTstampNanosPinnedPostHash = [4]"

definition GlobalStatePrefixUsernameVerificationAuditLog :: bytes where
  "GlobalStatePrefixUsernameVerificationAuditLog = [5]"

definition GlobalStatePrefixPublicKeyToGraylistState :: bytes where
  "GlobalStatePrefixPublicKeyToGraylistState = [6]"

definition GlobalStatePrefixPublicKeyToBlacklistState :: bytes where
  "GlobalStatePrefixPublicKeyToBlacklistState = [7]"

definition GlobalStatePrefixUserPublicKeyContactPublicKeyToMostRecentReadTstampNanos :: bytes where
  "GlobalStatePrefixUserPublicKeyContactPublicKeyToMostRecentReadTstampNanos = [8]"

subsection \<open>Library functions the key constructors call\<close>

text \<open>
  Modelled from the spec: \<^verbatim>\<open>lib.EncodeUint64\<close> lives in the core library, outside this
  repository; the spec gives the timestamp field as big-endian, eight bytes.
\<close>

definition EncodeUint64 :: "64 word \<Rightarrow> bytes" where
  "EncodeUint64 num = map (\<lambda>i. ucast (drop_bit (8 * i) num)) [7, 6, 5, 4, 3, 2, 1, 0 :: nat]"

text \<open>
  \<^verbatim>\<open>strings.ToLower\<close> of the Go standard library. A string of ASCII bytes only is
  returned as it is when it has no upper-case letter, and otherwise with \<open>'a' - 'A'\<close> added
  to every byte in \<open>'A'..'Z'\<close>. Any other string is mapped rune by rune
  (\<^verbatim>\<open>Map(unicode.ToLower, s)\<close>): a byte below \<open>0x80\<close> is a rune of its own and is
  lower-cased in the same way; at a byte from \<open>0x80\<close> on the rune is decoded from the bytes
  from \<open>0x80\<close> on that stand there (a UTF-8 sequence has no byte below \<open>0x80\<close>, and a
  sequence cut short is one invalid byte), and its lower-case form comes from the Unicode
  tables. Decoder and tables are the parameter \<open>unicodeLower\<close>: for such a run of bytes it
  gives the encoded lower-case form of the first rune and the width of that rune.
\<close>

definition isUpperASCII :: "byte \<Rightarrow> bool" where
  "isUpperASCII c = (0x41 \<le> c \<and> c \<le> 0x5A)"

definition RuneSelf :: byte where
  "RuneSelf = 0x80"

definition toLowerASCII :: "byte \<Rightarrow> byte" where
  "toLowerASCII c = (if isUpperASCII c then c + (0x61 - 0x41) else c)"

function strings_Map_unicode_ToLower ::
  "(gostring \<Rightarrow> gostring \<times> nat) \<Rightarrow> gostring \<Rightarrow> gostring" where
  "strings_Map_unicode_ToLower unicodeLower [] = []"
| "strings_Map_unicode_ToLower unicodeLower (c # s) =
     (if c < RuneSelf then toLowerASCII c # strings_Map_unicode_ToLower unicodeLower s
      else
        (case unicodeLower (takeWhile (\<lambda>b. RuneSelf \<le> b) (c # s)) of
           (lowered, width) \<Rightarrow>
             lowered @ strings_Map_unicode_ToLower unicodeLower (drop (width - 1) s)))"
  by pat_completeness auto
termination
  by (relation "measure (\<lambda>(unicodeLower, s). length s)") auto

definition strings_ToLower :: "(gostring \<Rightarrow> gostring \<times> nat) \<Rightarrow> gostring \<Rightarrow> gostring" where
  "strings_ToLower unicodeLower s =
     (let isASCII = list_all (\<lambda>c. c < RuneSelf) s;
          hasUpper = list_ex isUpperASCII s
      in if isASCII then
           (if \<not> hasUpper then s else map toLowerASCII s)
         else strings_Map_unicode_ToLower unicodeLower s)"

text \<open>
  A \<^verbatim>\<open>*lib.BlockHash\<close> points to a fixed-width byte array of the core library; the
  model has the array's bytes, and \<open>None\<close> for the nil pointer, whose slicing panics.
\<close>

type_synonym BlockHash = bytes

datatype panic = NilPointerDereference

subsection \<open>The key constructors (lines 193-266)\<close>

definition globalStateKeyForPhoneNumberBytesToPhoneNumberMetadata :: "bytes \<Rightarrow> bytes" where
  "globalStateKeyForPhoneNumberBytesToPhoneNumberMetadata phoneNumberBytes =
     (let prefixCopy = [] @ GlobalStatePrefixPhoneNumberToPhoneNumberMetadata;
          key = prefixCopy @ phoneNumberBytes
      in key)"

datatype PhoneNumberFormat = E164 | INTERNATIONAL | NATIONAL | RFC3966

text \<open>
  \<^verbatim>\<open>phonenumbers.Parse\<close> and \<^verbatim>\<open>phonenumbers.Format\<close> belong to an external
  library; they are the parameters \<open>Parse\<close> and \<open>Format\<close>, over any type \<open>'pn\<close> of parsed
  numbers. The error is its message: \<^verbatim>\<open>errors.Wrap(e, "")\<close> prints as \<open>": "\<close> followed
  by the message of \<open>e\<close>.
\<close>

definition GlobalStateKeyForPhoneNumberStringToPhoneNumberMetadata ::
  "(gostring \<Rightarrow> gostring \<Rightarrow> string + 'pn) \<Rightarrow> ('pn \<Rightarrow> PhoneNumberFormat \<Rightarrow> gostring) \<Rightarrow>
   gostring \<Rightarrow> string + bytes" where
  "GlobalStateKeyForPhoneNumberStringToPhoneNumberMetadata Parse Format phoneNumber =
     (case Parse phoneNumber [] of
        Inl err \<Rightarrow>
          Inl ('': '' @
            ''GlobalStateKeyForPhoneNumberStringToPhoneNumberMetadata: Problem with phonenumbers.Parse: ''
            @ err)
      | Inr parsedNumber \<Rightarrow>
          (let formattedNumber = Format parsedNumber E164
           in Inr (globalStateKeyForPhoneNumberBytesToPhoneNumberMetadata formattedNumber)))"

definition GlobalStateKeyForPublicKeyToUserMetadata :: "bytes \<Rightarrow> bytes" where
  "GlobalStateKeyForPublicKeyToUserMetadata profilePubKey =
     (let prefixCopy = [] @ GlobalStatePrefixPublicKeyToUserMetadata;
          key = prefixCopy @ profilePubKey
      in key)"

definition GlobalStateKeyForTstampPostHash :: "64 word \<Rightarrow> BlockHash option \<Rightarrow> panic + bytes" where
  "GlobalStateKeyForTstampPostHash tstampNanos postHash =
     (let key = [] @ GlobalStatePrefixTstampNanosPostHash;
          key = key @ EncodeUint64 tstampNanos
      in case postHash of
           None \<Rightarrow> Inl NilPointerDereference
         | Some hash \<Rightarrow> Inr (key @ hash))"

definition GlobalStateKeyForTstampPinnedPostHash :: "64 word \<Rightarrow> BlockHash option \<Rightarrow> panic + bytes" where
  "GlobalStateKeyForTstampPinnedPostHash tstampNanos postHash =
     (let key = [] @ GlobalStatePrefixTstampNanosPinnedPostHash;
          key = key @ EncodeUint64 tstampNanos
      in case postHash of
           None \<Rightarrow> Inl NilPointerDereference
         | Some hash \<Rightarrow> Inr (key @ hash))"

definition GlobalStateKeyForUsernameVerificationAuditLogs ::
  "(gostring \<Rightarrow> gostring \<times> nat) \<Rightarrow> gostring \<Rightarrow> bytes" where
  "GlobalStateKeyForUsernameVerificationAuditLogs unicodeLower username =
     (let key = [] @ GlobalStatePrefixUsernameVerificationAuditLog;
          key = key @ strings_ToLower unicodeLower username
      in key)"

definition GlobalStateKeyForGraylistedProfile :: "bytes \<Rightarrow> bytes" where
  "GlobalStateKeyForGraylistedProfile profilePubKey =
     (let key = [] @ GlobalStatePrefixPublicKeyToGraylistState;
          key = key @ profilePubKey
      in key)"

definition GlobalStateKeyForBlacklistedProfile :: "bytes \<Rightarrow> bytes" where
  "GlobalStateKeyForBlacklistedProfile profilePubKey =
     (let key = [] @ GlobalStatePrefixPublicKeyToBlacklistState;
          key = key @ profilePubKey
      in key)"

definition GlobalStateKeyForUserPkContactPkToMostRecentReadTstampNanos ::
  "bytes \<Rightarrow> bytes \<Rightarrow> bytes" where
  "GlobalStateKeyForUserPkContactPkToMostRecentReadTstampNanos userPubKey contactPubKey =
     (let prefixCopy = [] @ GlobalStatePrefixUserPublicKeyContactPublicKeyToMostRecentReadTstampNanos;
          key = prefixCopy @ userPubKey;
          key = key @ contactPubKey
      in key)"

subsection \<open>Letter case of usernames\<close>

text \<open>
  Two bytes are the same letter up to ASCII case when they are equal, or one is an
  upper-case ASCII letter and the other the lower-case letter \<open>0x20\<close> above it. Two
  usernames differ only in the case of ASCII letters when they have the same length and
  agree up to ASCII case at every position; the bytes of a rune beyond ASCII are then the
  same in both, so letters beyond ASCII that differ in case are not related.
\<close>

definition same_letter_up_to_ASCII_case :: "byte \<Rightarrow> byte \<Rightarrow> bool" where
  "same_letter_up_to_ASCII_case c d =
     (c = d \<or> (isUpperASCII c \<and> d = c + 0x20) \<or> (isUpperASCII d \<and> c = d + 0x20))"

definition differ_only_in_ASCII_letter_case :: "gostring \<Rightarrow> gostring \<Rightarrow> bool" where
  "differ_only_in_ASCII_letter_case u v = list_all2 same_letter_up_to_ASCII_case u v"

subsection \<open>Record kinds and the calls that build their keys\<close>

text \<open>
  One record kind per declared prefix, and one constructor of \<open>key_call\<close> per call of a
  key constructor with its arguments, so that a statement can range over every such call.
\<close>

datatype record_kind =
    KindUserMetadata
  | KindTstampPostHash
  | KindPhoneNumberMetadata
  | KindVerifiedMap
  | KindTstampPinnedPostHash
  | KindUsernameVerificationAuditLog
  | KindGraylistState
  | KindBlacklistState
  | KindMostRecentReadTstampNanos

fun prefix_of_kind :: "record_kind \<Rightarrow> bytes" where
  "prefix_of_kind KindUserMetadata = GlobalStatePrefixPublicKeyToUserMetadata"
| "prefix_of_kind KindTstampPostHash = GlobalStatePrefixTstampNanosPostHash"
| "prefix_of_kind KindPhoneNumberMetadata = GlobalStatePrefixPhoneNumberToPhoneNumberMetadata"
| "prefix_of_kind KindVerifiedMap = GlobalStatePrefixForVerifiedMap"
| "prefix_of_kind KindTstampPinnedPostHash = GlobalStatePrefixTstampNanosPinnedPostHash"
| "prefix_of_kind KindUsernameVerificationAuditLog = GlobalStatePrefixUsernameVerificationAuditLog"
| "prefix_of_kind KindGraylistState = GlobalStatePrefixPublicKeyToGraylistState"
| "prefix_of_kind KindBlacklistState = GlobalStatePrefixPublicKeyToBlacklistState"
| "prefix_of_kind KindMostRecentReadTstampNanos =
     GlobalStatePrefixUserPublicKeyContactPublicKeyToMostRecentReadTstampNanos"

definition all_kinds :: "record_kind list" where
  "all_kinds =
     [KindUserMetadata, KindTstampPostHash, KindPhoneNumberMetadata, KindVerifiedMap,
      KindTstampPinnedPostHash, KindUsernameVerificationAuditLog, KindGraylistState,
      KindBlacklistState, KindMostRecentReadTstampNanos]"

datatype key_call =
    CallPhoneNumberString gostring
  | CallPhoneNumberBytes bytes
  | CallPublicKeyToUserMetadata bytes
  | CallTstampPostHash "64 word" "BlockHash option"
  | CallTstampPinnedPostHash "64 word" "BlockHash option"
  | CallUsernameVerificationAuditLogs gostring
  | CallGraylistedProfile bytes
  | CallBlacklistedProfile bytes
  | CallUserPkContactPk bytes bytes

fun kind_of_call :: "key_call \<Rightarrow> record_kind" where
  "kind_of_call (CallPhoneNumberString s) = KindPhoneNumberMetadata"
| "kind_of_call (CallPhoneNumberBytes b) = KindPhoneNumberMetadata"
| "kind_of_call (CallPublicKeyToUserMetadata pk) = KindUserMetadata"
| "kind_of_call (CallTstampPostHash t h) = KindTstampPostHash"
| "kind_of_call (CallTstampPinnedPostHash t h) = KindTstampPinnedPostHash"
| "kind_of_call (CallUsernameVerificationAuditLogs u) = KindUsernameVerificationAuditLog"
| "kind_of_call (CallGraylistedProfile pk) = KindGraylistState"
| "kind_of_call (CallBlacklistedProfile pk) = KindBlacklistState"
| "kind_of_call (CallUserPkContactPk upk cpk) = KindMostRecentReadTstampNanos"

text \<open>The key a call returns, \<open>None\<close> when it returns an error or panics.\<close>

definition returned_key :: "('e + bytes) \<Rightarrow> bytes option" where
  "returned_key r = (case r of Inl e \<Rightarrow> None | Inr key \<Rightarrow> Some key)"

fun key_of_call ::
  "(gostring \<Rightarrow> gostring \<Rightarrow> string + 'pn) \<Rightarrow> ('pn \<Rightarrow> PhoneNumberFormat \<Rightarrow> gostring) \<Rightarrow>
   (gostring \<Rightarrow> gostring \<times> nat) \<Rightarrow> key_call \<Rightarrow> bytes option" where
  "key_of_call Parse Format unicodeLower (CallPhoneNumberString s) =
     returned_key (GlobalStateKeyForPhoneNumberStringToPhoneNumberMetadata Parse Format s)"
| "key_of_call Parse Format unicodeLower (CallPhoneNumberBytes b) =
     Some (globalStateKeyForPhoneNumberBytesToPhoneNumberMetadata b)"
| "key_of_call Parse Format unicodeLower (CallPublicKeyToUserMetadata pk) =
     Some (GlobalStateKeyForPublicKeyToUserMetadata pk)"
| "key_of_call Parse Format unicodeLower (CallTstampPostHash t h) =
     returned_key (GlobalStateKeyForTstampPostHash t h)"
| "key_of_call Parse Format unicodeLower (CallTstampPinnedPostHash t h) =
     returned_key (GlobalStateKeyForTstampPinnedPostHash t h)"
| "key_of_call Parse Format unicodeLower (CallUsernameVerificationAuditLogs u) =
     Some (GlobalStateKeyForUsernameVerificationAuditLogs unicodeLower u)"
| "key_of_call Parse Format unicodeLower (CallGraylistedProfile pk) =
     Some (GlobalStateKeyForGraylistedProfile pk)"
| "key_of_call Parse Format unicodeLower (CallBlacklistedProfile pk) =
     Some (GlobalStateKeyForBlacklistedProfile pk)"
| "key_of_call Parse Format unicodeLower (CallUserPkContactPk upk cpk) =
     Some (GlobalStateKeyForUserPkContactPkToMostRecentReadTstampNanos upk cpk)"

subsection \<open>A sample phone-number library\<close>

text \<open>
  An instance of the two library parameters, for evaluating the phone-number key on
  concrete strings: parsing keeps the digits of the string and fails when there is none,
  formatting writes \<open>+\<close> before them.
\<close>

definition isDigit :: "byte \<Rightarrow> bool" where
  "isDigit c = (0x30 \<le> c \<and> c \<le> 0x39)"

definition sample_Parse :: "gostring \<Rightarrow> gostring \<Rightarrow> string + bytes" where
  "sample_Parse numberToParse defaultRegion =
     (let digits = filter isDigit numberToParse
      in if digits = [] then Inl ''the phone number supplied is not a number'' else Inr digits)"

definition sample_Format :: "bytes \<Rightarrow> PhoneNumberFormat \<Rightarrow> gostring" where
  "sample_Format digits fmt = 0x2B # digits"

subsection \<open>The embedded engine\<close>

text \<open>
  The transactional key-value engine is an external library. The model gives it the
  contract the code relies on: a map from keys to values, read in a view
  transaction and changed by an update transaction that commits, and for each call the
  failure it may report. The failures are fields of the database, fixed while it lives:
  \<open>begin_fault\<close> for opening a transaction, \<open>get_fault\<close> for a point lookup that fails for
  another reason than a missing key, \<open>copy_fault\<close> for copying the value of an item,
  \<open>set_fault\<close> and \<open>delete_fault\<close> for the two writes, \<open>commit_fault\<close> for the commit.
\<close>

datatype engine_error = ErrKeyNotFound | ErrEngine string

fun engine_error_text :: "engine_error \<Rightarrow> string" where
  "engine_error_text ErrKeyNotFound = ''Key not found''"
| "engine_error_text (ErrEngine msg) = msg"

record badger_DB =
  kv :: "bytes \<rightharpoonup> bytes"
  begin_fault :: "string option"
  get_fault :: "bytes \<Rightarrow> string option"
  copy_fault :: "bytes \<Rightarrow> string option"
  set_fault :: "bytes \<Rightarrow> bytes \<Rightarrow> string option"
  delete_fault :: "bytes \<Rightarrow> string option"
  commit_fault :: "string option"

record Item =
  item_key :: bytes
  item_value :: bytes

definition txn_Get :: "badger_DB \<Rightarrow> bytes \<Rightarrow> engine_error + Item" where
  "txn_Get txn key =
     (case get_fault txn key of
        Some msg \<Rightarrow> Inl (ErrEngine msg)
      | None \<Rightarrow>
          (case kv txn key of
             None \<Rightarrow> Inl ErrKeyNotFound
           | Some v \<Rightarrow> Inr \<lparr>item_key = key, item_value = v\<rparr>))"

definition Item_ValueCopy :: "badger_DB \<Rightarrow> Item \<Rightarrow> engine_error + bytes" where
  "Item_ValueCopy txn item =
     (case copy_fault txn (item_key item) of
        Some msg \<Rightarrow> Inl (ErrEngine msg)
      | None \<Rightarrow> Inr (item_value item))"

definition txn_Set :: "badger_DB \<Rightarrow> bytes \<Rightarrow> bytes \<Rightarrow> engine_error + badger_DB" where
  "txn_Set txn key val =
     (case set_fault txn key val of
        Some msg \<Rightarrow> Inl (ErrEngine msg)
      | None \<Rightarrow> Inr (txn\<lparr>kv := (kv txn)(key \<mapsto> val)\<rparr>))"

definition txn_Delete :: "badger_DB \<Rightarrow> bytes \<Rightarrow> engine_error + badger_DB" where
  "txn_Delete txn key =
     (case delete_fault txn key of
        Some msg \<Rightarrow> Inl (ErrEngine msg)
      | None \<Rightarrow> Inr (txn\<lparr>kv := (kv txn)(key := None)\<rparr>))"

text \<open>
  \<^verbatim>\<open>db.View(fn)\<close>: the closure reads the transaction and assigns the variables it
  captures; the model passes their value in and gets it back with the closure's error.
\<close>

definition DB_View ::
  "badger_DB \<Rightarrow> 'a \<Rightarrow> (badger_DB \<Rightarrow> 'a \<Rightarrow> 'a \<times> engine_error option) \<Rightarrow> 'a \<times> engine_error option" where
  "DB_View db captured fn =
     (case begin_fault db of
        Some msg \<Rightarrow> (captured, Some (ErrEngine msg))
      | None \<Rightarrow> fn db captured)"

text \<open>
  \<^verbatim>\<open>db.Update(fn)\<close>: the writes of the closure reach the database when the closure
  returns no error and the commit succeeds; otherwise the transaction is discarded.
\<close>

definition DB_Update ::
  "badger_DB \<Rightarrow> (badger_DB \<Rightarrow> engine_error + badger_DB) \<Rightarrow> engine_error option \<times> badger_DB" where
  "DB_Update db fn =
     (case begin_fault db of
        Some msg \<Rightarrow> (Some (ErrEngine msg), db)
      | None \<Rightarrow>
          (case fn db of
             Inl err \<Rightarrow> (Some err, db)
           | Inr txn \<Rightarrow>
               (case commit_fault db of
                  Some msg \<Rightarrow> (Some (ErrEngine msg), db)
                | None \<Rightarrow> (None, txn))))"

subsection \<open>The server, the network and the effects of a call\<close>

record APIServer =
  GlobalStateRemoteNode :: string
  GlobalStateRemoteNodeSharedSecret :: string
  GlobalStateDB :: badger_DB

definition GlobalStateSharedSecretParam :: string where
  "GlobalStateSharedSecretParam = ''shared_secret''"

definition RoutePathGlobalStatePutRemote :: string where
  "RoutePathGlobalStatePutRemote = ''/api/v1/global-state/put''"

definition RoutePathGlobalStateGetRemote :: string where
  "RoutePathGlobalStateGetRemote = ''/api/v1/global-state/get''"

definition RoutePathGlobalStateBatchGetRemote :: string where
  "RoutePathGlobalStateBatchGetRemote = ''/api/v1/global-state/batch-get''"

definition RoutePathGlobalStateDeleteRemote :: string where
  "RoutePathGlobalStateDeleteRemote = ''/api/v1/global-state/delete''"

definition RoutePathGlobalStateSeekRemote :: string where
  "RoutePathGlobalStateSeekRemote = ''/api/v1/global-state/seek''"

text \<open>The five request envelopes; the integers of a seek are Go's \<open>int\<close>.\<close>

datatype request =
    GlobalStatePutRemoteRequest bytes bytes
  | GlobalStateGetRemoteRequest bytes
  | GlobalStateBatchGetRemoteRequest "bytes list"
  | GlobalStateDeleteRemoteRequest bytes
  | GlobalStateSeekRemoteRequest bytes bytes int int bool bool

record http_Response =
  StatusCode :: nat
  Body :: bytes

text \<open>
  What lies outside the repository is a parameter of every primitive: \<open>http_Post url
  contentType body\<close> is \<^verbatim>\<open>http.Post\<close>, which returns an error when the round trip fails
  and a response, of whatever status, otherwise; \<open>json_Marshal\<close> is \<^verbatim>\<open>json.Marshal\<close>;
  the three decoders give the fields of the response struct after
  \<^verbatim>\<open>json.NewDecoder(body).Decode(&res)\<close>, whose error the code drops;
  \<open>DBGetPaginatedKeysAndValuesForPrefix\<close> is the core library's range scan.
\<close>

record env =
  http_Post :: "string \<Rightarrow> string \<Rightarrow> bytes \<Rightarrow> string + http_Response"
  json_Marshal :: "request \<Rightarrow> string + bytes"
  json_Decode_Get :: "bytes \<Rightarrow> bytes"
  json_Decode_BatchGet :: "bytes \<Rightarrow> bytes list"
  json_Decode_Seek :: "bytes \<Rightarrow> bytes list \<times> bytes list"
  DBGetPaginatedKeysAndValuesForPrefix ::
    "badger_DB \<Rightarrow> bytes \<Rightarrow> bytes \<Rightarrow> int \<Rightarrow> int \<Rightarrow> bool \<Rightarrow> bool \<Rightarrow> string + (bytes list \<times> bytes list)"

text \<open>
  The calls a primitive makes to the outside, in order: an HTTP POST with its URL, content
  type and body, or one access to the local database.
\<close>

datatype effect =
    HTTP_POST string string bytes
  | DB_VIEW
  | DB_UPDATE
  | DB_SEEK

definition remote_url :: "APIServer \<Rightarrow> string \<Rightarrow> string" where
  "remote_url fes routePath =
     GlobalStateRemoteNode fes @ routePath @ ''?'' @ GlobalStateSharedSecretParam @ ''=''
       @ GlobalStateRemoteNodeSharedSecret fes"

subsection \<open>The five primitives (lines 301-756)\<close>

text \<open>
  Each primitive returns its Go result (an error is its message; \<open>None\<close> is the nil
  error), the server with the database as the call leaves it, and the effects of the call.
\<close>

definition CreateGlobalStatePutRequest ::
  "env \<Rightarrow> APIServer \<Rightarrow> bytes \<Rightarrow> bytes \<Rightarrow> string + (string \<times> bytes)" where
  "CreateGlobalStatePutRequest e fes key val =
     (let req = GlobalStatePutRemoteRequest key val
      in case json_Marshal e req of
           Inl err \<Rightarrow> Inl (''GlobalStatePut: Could not marshal JSON: '' @ err)
         | Inr json_data \<Rightarrow>
             (let url = remote_url fes RoutePathGlobalStatePutRemote
              in Inr (url, json_data)))"

definition GlobalStatePut ::
  "env \<Rightarrow> APIServer \<Rightarrow> bytes \<Rightarrow> bytes \<Rightarrow> string option \<times> APIServer \<times> effect list" where
  "GlobalStatePut e fes key val =
     (if GlobalStateRemoteNode fes \<noteq> '''' then
        (case CreateGlobalStatePutRequest e fes key val of
           Inl err \<Rightarrow> (Some (''GlobalStatePut: Error constructing request: '' @ err), fes, [])
         | Inr (url, json_data) \<Rightarrow>
             (case http_Post e url ''application/json'' json_data of
                Inl err \<Rightarrow>
                  (Some ''GlobalStatePut: Error processing remote request'', fes,
                   [HTTP_POST url ''application/json'' json_data])
              | Inr res \<Rightarrow> (None, fes, [HTTP_POST url ''application/json'' json_data])))
      else
        (case DB_Update (GlobalStateDB fes) (\<lambda>txn. txn_Set txn key val) of
           (err, db) \<Rightarrow>
             (map_option engine_error_text err, fes\<lparr>GlobalStateDB := db\<rparr>, [DB_UPDATE])))"

definition CreateGlobalStateGetRequest ::
  "env \<Rightarrow> APIServer \<Rightarrow> bytes \<Rightarrow> string + (string \<times> bytes)" where
  "CreateGlobalStateGetRequest e fes key =
     (let req = GlobalStateGetRemoteRequest key
      in case json_Marshal e req of
           Inl err \<Rightarrow> Inl (''GlobalStateGet: Could not marshal JSON: '' @ err)
         | Inr json_data \<Rightarrow>
             (let url = remote_url fes RoutePathGlobalStateGetRemote
              in Inr (url, json_data)))"

definition GlobalStateGet ::
  "env \<Rightarrow> APIServer \<Rightarrow> bytes \<Rightarrow> (string + bytes) \<times> APIServer \<times> effect list" where
  "GlobalStateGet e fes key =
     (if GlobalStateRemoteNode fes \<noteq> '''' then
        (case CreateGlobalStateGetRequest e fes key of
           Inl err \<Rightarrow> (Inl (''GlobalStateGet: Error constructing request: '' @ err), fes, [])
         | Inr (url, json_data) \<Rightarrow>
             (case http_Post e url ''application/json'' json_data of
                Inl err \<Rightarrow>
                  (Inl ''GlobalStateGet: Error processing remote request'', fes,
                   [HTTP_POST url ''application/json'' json_data])
              | Inr resReturned \<Rightarrow>
                  (let res_Value = json_Decode_Get e (Body resReturned)
                   in (Inr res_Value, fes, [HTTP_POST url ''application/json'' json_data]))))
      else
        (case DB_View (GlobalStateDB fes) []
                (\<lambda>txn retValue.
                   case txn_Get txn key of
                     Inl err \<Rightarrow> (retValue, None)
                   | Inr item \<Rightarrow>
                       (case Item_ValueCopy txn item of
                          Inl err \<Rightarrow> ([], Some err)
                        | Inr v \<Rightarrow> (v, None))) of
           (retValue, Some err) \<Rightarrow>
             (Inl (''GlobalStateGet: Error copying value into new slice: '' @ engine_error_text err),
              fes, [DB_VIEW])
         | (retValue, None) \<Rightarrow> (Inr retValue, fes, [DB_VIEW])))"

definition CreateGlobalStateBatchGetRequest ::
  "env \<Rightarrow> APIServer \<Rightarrow> bytes list \<Rightarrow> string + (string \<times> bytes)" where
  "CreateGlobalStateBatchGetRequest e fes keyList =
     (let req = GlobalStateBatchGetRemoteRequest keyList
      in case json_Marshal e req of
           Inl err \<Rightarrow> Inl (''GlobalStateBatchGet: Could not marshal JSON: '' @ err)
         | Inr json_data \<Rightarrow>
             (let url = remote_url fes RoutePathGlobalStateBatchGetRemote
              in Inr (url, json_data)))"

text \<open>
  The loop of the batch lookup (lines 536-548), with the list it appends to: a key whose
  lookup fails adds an empty value, a value that cannot be copied ends the loop with the
  error and the list as built so far.
\<close>

fun batchGet_loop ::
  "badger_DB \<Rightarrow> bytes list \<Rightarrow> bytes list \<Rightarrow> bytes list \<times> engine_error option" where
  "batchGet_loop txn [] retValueList = (retValueList, None)"
| "batchGet_loop txn (key # keyList) retValueList =
     (case txn_Get txn key of
        Inl err \<Rightarrow> batchGet_loop txn keyList (retValueList @ [[]])
      | Inr item \<Rightarrow>
          (case Item_ValueCopy txn item of
             Inl err \<Rightarrow> (retValueList, Some err)
           | Inr v \<Rightarrow> batchGet_loop txn keyList (retValueList @ [v])))"

definition GlobalStateBatchGet ::
  "env \<Rightarrow> APIServer \<Rightarrow> bytes list \<Rightarrow> (string + bytes list) \<times> APIServer \<times> effect list" where
  "GlobalStateBatchGet e fes keyList =
     (if GlobalStateRemoteNode fes \<noteq> '''' then
        (case CreateGlobalStateBatchGetRequest e fes keyList of
           Inl err \<Rightarrow> (Inl (''GlobalStateBatchGet: Error constructing request: '' @ err), fes, [])
         | Inr (url, json_data) \<Rightarrow>
             (case http_Post e url ''application/json'' json_data of
                Inl err \<Rightarrow>
                  (Inl ''GlobalStateBatchGet: Error processing remote request'', fes,
                   [HTTP_POST url ''application/json'' json_data])
              | Inr resReturned \<Rightarrow>
                  (let res_ValueList = json_Decode_BatchGet e (Body resReturned)
                   in (Inr res_ValueList, fes, [HTTP_POST url ''application/json'' json_data]))))
      else
        (case DB_View (GlobalStateDB fes) []
                (\<lambda>txn retValueList. batchGet_loop txn keyList retValueList) of
           (retValueList, Some err) \<Rightarrow>
             (Inl (''GlobalStateBatchGet: Error copying value into new slice: ''
                     @ engine_error_text err),
              fes, [DB_VIEW])
         | (retValueList, None) \<Rightarrow> (Inr retValueList, fes, [DB_VIEW])))"

definition CreateGlobalStateDeleteRequest ::
  "env \<Rightarrow> APIServer \<Rightarrow> bytes \<Rightarrow> string + (string \<times> bytes)" where
  "CreateGlobalStateDeleteRequest e fes key =
     (let req = GlobalStateDeleteRemoteRequest key
      in case json_Marshal e req of
           Inl err \<Rightarrow> Inl (''GlobalStateDelete: Could not marshal JSON: '' @ err)
         | Inr json_data \<Rightarrow>
             (let url = remote_url fes RoutePathGlobalStateDeleteRemote
              in Inr (url, json_data)))"

definition GlobalStateDelete ::
  "env \<Rightarrow> APIServer \<Rightarrow> bytes \<Rightarrow> string option \<times> APIServer \<times> effect list" where
  "GlobalStateDelete e fes key =
     (if GlobalStateRemoteNode fes \<noteq> '''' then
        (case CreateGlobalStateDeleteRequest e fes key of
           Inl err \<Rightarrow> (Some (''GlobalStateDelete: Could not construct request: '' @ err), fes, [])
         | Inr (url, json_data) \<Rightarrow>
             (case http_Post e url ''application/json'' json_data of
                Inl err \<Rightarrow>
                  (Some ''GlobalStateDelete: Error processing remote request'', fes,
                   [HTTP_POST url ''application/json'' json_data])
              | Inr res \<Rightarrow> (None, fes, [HTTP_POST url ''application/json'' json_data])))
      else
        (case DB_Update (GlobalStateDB fes) (\<lambda>txn. txn_Delete txn key) of
           (err, db) \<Rightarrow>
             (map_option engine_error_text err, fes\<lparr>GlobalStateDB := db\<rparr>, [DB_UPDATE])))"

definition CreateGlobalStateSeekRequest ::
  "env \<Rightarrow> APIServer \<Rightarrow> bytes \<Rightarrow> bytes \<Rightarrow> int \<Rightarrow> int \<Rightarrow> bool \<Rightarrow> bool \<Rightarrow> string + (string \<times> bytes)" where
  "CreateGlobalStateSeekRequest e fes startPrefix validForPrefix maxKeyLen numToFetch reverse fetchValues =
     (let req = GlobalStateSeekRemoteRequest startPrefix validForPrefix maxKeyLen numToFetch reverse fetchValues
      in case json_Marshal e req of
           Inl err \<Rightarrow> Inl (''GlobalStateSeek: Could not marshal JSON: '' @ err)
         | Inr json_data \<Rightarrow>
             (let url = remote_url fes RoutePathGlobalStateSeekRemote
              in Inr (url, json_data)))"

definition GlobalStateSeek ::
  "env \<Rightarrow> APIServer \<Rightarrow> bytes \<Rightarrow> bytes \<Rightarrow> int \<Rightarrow> int \<Rightarrow> bool \<Rightarrow> bool \<Rightarrow>
   (string + (bytes list \<times> bytes list)) \<times> APIServer \<times> effect list" where
  "GlobalStateSeek e fes startPrefix validForPrefix maxKeyLen numToFetch reverse fetchValues =
     (if GlobalStateRemoteNode fes \<noteq> '''' then
        (case CreateGlobalStateSeekRequest e fes startPrefix validForPrefix maxKeyLen numToFetch
                reverse fetchValues of
           Inl err \<Rightarrow> (Inl (''GlobalStateSeek: Error constructing request: '' @ err), fes, [])
         | Inr (url, json_data) \<Rightarrow>
             (case http_Post e url ''application/json'' json_data of
                Inl err \<Rightarrow>
                  (Inl ''GlobalStateSeek: Error processing remote request'', fes,
                   [HTTP_POST url ''application/json'' json_data])
              | Inr resReturned \<Rightarrow>
                  (let res = json_Decode_Seek e (Body resReturned)
                   in (Inr (fst res, snd res), fes, [HTTP_POST url ''application/json'' json_data]))))
      else
        (case DBGetPaginatedKeysAndValuesForPrefix e (GlobalStateDB fes) startPrefix validForPrefix
                maxKeyLen numToFetch reverse fetchValues of
           Inl err \<Rightarrow>
             (Inl (''GlobalStateSeek: Error getting paginated keys and values: '' @ err), fes,
              [DB_SEEK])
         | Inr (retKeys, retVals) \<Rightarrow> (Inr (retKeys, retVals), fes, [DB_SEEK])))"

subsection \<open>An engine that serves a call\<close>

text \<open>
  The engine serves the reads of a list of keys when a transaction opens and no lookup or
  value copy of these keys fails for a reason of the engine's; it serves a write when the
  transaction opens, the write is accepted and the commit succeeds.
\<close>

definition engine_reads_ok :: "badger_DB \<Rightarrow> bytes list \<Rightarrow> bool" where
  "engine_reads_ok db keys =
     (begin_fault db = None \<and>
      list_all (\<lambda>k. get_fault db k = None \<and> copy_fault db k = None) keys)"

definition engine_put_ok :: "badger_DB \<Rightarrow> bytes \<Rightarrow> bytes \<Rightarrow> bool" where
  "engine_put_ok db key val =
     (begin_fault db = None \<and> set_fault db key val = None \<and> commit_fault db = None)"

definition engine_delete_ok :: "badger_DB \<Rightarrow> bytes \<Rightarrow> bool" where
  "engine_delete_ok db key =
     (begin_fault db = None \<and> delete_fault db key = None \<and> commit_fault db = None)"

definition stored_or_empty :: "badger_DB \<Rightarrow> bytes \<Rightarrow> bytes" where
  "stored_or_empty db key = (case kv db key of None \<Rightarrow> [] | Some v \<Rightarrow> v)"

subsection \<open>Slices in memory\<close>

text \<open>
  For the aliasing of the key constructors the model has a store: the heap is the list of
  the byte arrays allocated so far, an address is an index into it, and an allocation adds
  an array at the end. A slice is Go's header, the array with an offset, a length and a
  capacity; \<open>arr = None\<close> is a slice with no array behind it (nil, or the literal
  \<^verbatim>\<open>[]byte{}\<close>). \<open>go_append\<close> is the built-in \<^verbatim>\<open>append(s, xs...)\<close>: the bytes
  are written behind the slice in its own array when the capacity allows, and into a new
  array of at least the needed capacity otherwise; the growth policy of the runtime is the
  parameter \<open>growcap\<close>. The bytes to append are read before anything is written.
\<close>

type_synonym addr = nat
type_synonym heap = "bytes list"

record slice =
  arr :: "addr option"
  off :: nat
  len :: nat
  cap :: nat

definition empty_slice :: slice where
  "empty_slice = \<lparr>arr = None, off = 0, len = 0, cap = 0\<rparr>"

definition slice_bytes :: "heap \<Rightarrow> slice \<Rightarrow> bytes" where
  "slice_bytes h s =
     (case arr s of None \<Rightarrow> [] | Some a \<Rightarrow> take (len s) (drop (off s) (h ! a)))"

definition valid_slice :: "heap \<Rightarrow> slice \<Rightarrow> bool" where
  "valid_slice h s =
     (len s \<le> cap s \<and>
      (case arr s of
         None \<Rightarrow> cap s = 0
       | Some a \<Rightarrow> a < length h \<and> off s + cap s \<le> length (h ! a)))"

definition valid_ptr :: "heap \<Rightarrow> addr option \<Rightarrow> bool" where
  "valid_ptr h p = (case p of None \<Rightarrow> True | Some a \<Rightarrow> a < length h)"

definition write_at :: "bytes \<Rightarrow> nat \<Rightarrow> bytes \<Rightarrow> bytes" where
  "write_at a i xs = take i a @ xs @ drop (i + length xs) a"

definition go_append :: "(nat \<Rightarrow> nat \<Rightarrow> nat) \<Rightarrow> heap \<Rightarrow> slice \<Rightarrow> bytes \<Rightarrow> slice \<times> heap" where
  "go_append growcap h s xs =
     (let n = len s + length xs
      in if n \<le> cap s then
           (case arr s of
              None \<Rightarrow> (s, h)
            | Some a \<Rightarrow> (s\<lparr>len := n\<rparr>, h[a := write_at (h ! a) (off s + len s) xs]))
         else
           (let newcap = max n (growcap (cap s) n)
            in (\<lparr>arr = Some (length h), off = 0, len = n, cap = newcap\<rparr>,
                h @ [slice_bytes h s @ xs @ replicate (newcap - n) 0])))"

text \<open>A library call that returns a new slice (a conversion, an encoding) allocates it.\<close>

definition new_bytes :: "heap \<Rightarrow> bytes \<Rightarrow> slice \<times> heap" where
  "new_bytes h bs =
     (\<lparr>arr = Some (length h), off = 0, len = length bs, cap = length bs\<rparr>, h @ [bs])"

subsection \<open>The key constructors in memory\<close>

text \<open>
  The same functions as above, on slices: \<open>prefixVar\<close> gives the slice held by the prefix
  variable of each kind, the arguments are slices of the heap (a pointer to an array for
  a block hash), and the result is the returned slice with the heap after the call.
\<close>

definition globalStateKeyForPhoneNumberBytesToPhoneNumberMetadata_mem ::
  "(nat \<Rightarrow> nat \<Rightarrow> nat) \<Rightarrow> (record_kind \<Rightarrow> slice) \<Rightarrow> heap \<Rightarrow> slice \<Rightarrow> slice \<times> heap" where
  "globalStateKeyForPhoneNumberBytesToPhoneNumberMetadata_mem growcap prefixVar h phoneNumberBytes =
     (case go_append growcap h empty_slice (slice_bytes h (prefixVar KindPhoneNumberMetadata)) of
        (prefixCopy, h) \<Rightarrow>
          (case go_append growcap h prefixCopy (slice_bytes h phoneNumberBytes) of
             (key, h) \<Rightarrow> (key, h)))"

definition GlobalStateKeyForPublicKeyToUserMetadata_mem ::
  "(nat \<Rightarrow> nat \<Rightarrow> nat) \<Rightarrow> (record_kind \<Rightarrow> slice) \<Rightarrow> heap \<Rightarrow> slice \<Rightarrow> slice \<times> heap" where
  "GlobalStateKeyForPublicKeyToUserMetadata_mem growcap prefixVar h profilePubKey =
     (case go_append growcap h empty_slice (slice_bytes h (prefixVar KindUserMetadata)) of
        (prefixCopy, h) \<Rightarrow>
          (case go_append growcap h prefixCopy (slice_bytes h profilePubKey) of
             (key, h) \<Rightarrow> (key, h)))"

definition GlobalStateKeyForTstampPostHash_mem ::
  "(nat \<Rightarrow> nat \<Rightarrow> nat) \<Rightarrow> (record_kind \<Rightarrow> slice) \<Rightarrow> heap \<Rightarrow> 64 word \<Rightarrow> addr option \<Rightarrow>
   panic + (slice \<times> heap)" where
  "GlobalStateKeyForTstampPostHash_mem growcap prefixVar h tstampNanos postHash =
     (case go_append growcap h empty_slice (slice_bytes h (prefixVar KindTstampPostHash)) of
        (key, h) \<Rightarrow>
          (case new_bytes h (EncodeUint64 tstampNanos) of
             (encoded, h) \<Rightarrow>
               (case go_append growcap h key (slice_bytes h encoded) of
                  (key, h) \<Rightarrow>
                    (case postHash of
                       None \<Rightarrow> Inl NilPointerDereference
                     | Some a \<Rightarrow>
                         (case go_append growcap h key (h ! a) of
                            (key, h) \<Rightarrow> Inr (key, h))))))"

definition GlobalStateKeyForTstampPinnedPostHash_mem ::
  "(nat \<Rightarrow> nat \<Rightarrow> nat) \<Rightarrow> (record_kind \<Rightarrow> slice) \<Rightarrow> heap \<Rightarrow> 64 word \<Rightarrow> addr option \<Rightarrow>
   panic + (slice \<times> heap)" where
  "GlobalStateKeyForTstampPinnedPostHash_mem growcap prefixVar h tstampNanos postHash =
     (case go_append growcap h empty_slice (slice_bytes h (prefixVar KindTstampPinnedPostHash)) of
        (key, h) \<Rightarrow>
          (case new_bytes h (EncodeUint64 tstampNanos) of
             (encoded, h) \<Rightarrow>
               (case go_append growcap h key (slice_bytes h encoded) of
                  (key, h) \<Rightarrow>
                    (case postHash of
                       None \<Rightarrow> Inl NilPointerDereference
                     | Some a \<Rightarrow>
                         (case go_append growcap h key (h ! a) of
                            (key, h) \<Rightarrow> Inr (key, h))))))"

definition GlobalStateKeyForUsernameVerificationAuditLogs_mem ::
  "(nat \<Rightarrow> nat \<Rightarrow> nat) \<Rightarrow> (record_kind \<Rightarrow> slice) \<Rightarrow> heap \<Rightarrow> (gostring \<Rightarrow> gostring \<times> nat) \<Rightarrow>
   gostring \<Rightarrow>
   slice \<times> heap" where
  "GlobalStateKeyForUsernameVerificationAuditLogs_mem growcap prefixVar h unicodeLower username =
     (case go_append growcap h empty_slice
             (slice_bytes h (prefixVar KindUsernameVerificationAuditLog)) of
        (key, h) \<Rightarrow>
          (case new_bytes h (strings_ToLower unicodeLower username) of
             (lowered, h) \<Rightarrow>
               (case go_append growcap h key (slice_bytes h lowered) of
                  (key, h) \<Rightarrow> (key, h))))"

definition GlobalStateKeyForGraylistedProfile_mem ::
  "(nat \<Rightarrow> nat \<Rightarrow> nat) \<Rightarrow> (record_kind \<Rightarrow> slice) \<Rightarrow> heap \<Rightarrow> slice \<Rightarrow> slice \<times> heap" where
  "GlobalStateKeyForGraylistedProfile_mem growcap prefixVar h profilePubKey =
     (case go_append growcap h empty_slice (slice_bytes h (prefixVar KindGraylistState)) of
        (key, h) \<Rightarrow>
          (case go_append growcap h key (slice_bytes h profilePubKey) of
             (key, h) \<Rightarrow> (key, h)))"

definition GlobalStateKeyForBlacklistedProfile_mem ::
  "(nat \<Rightarrow> nat \<Rightarrow> nat) \<Rightarrow> (record_kind \<Rightarrow> slice) \<Rightarrow> heap \<Rightarrow> slice \<Rightarrow> slice \<times> heap" where
  "GlobalStateKeyForBlacklistedProfile_mem growcap prefixVar h profilePubKey =
     (case go_append growcap h empty_slice (slice_bytes h (prefixVar KindBlacklistState)) of
        (key, h) \<Rightarrow>
          (case go_append growcap h key (slice_bytes h profilePubKey) of
             (key, h) \<Rightarrow> (key, h)))"

definition GlobalStateKeyForUserPkContactPkToMostRecentReadTstampNanos_mem ::
  "(nat \<Rightarrow> nat \<Rightarrow> nat) \<Rightarrow> (record_kind \<Rightarrow> slice) \<Rightarrow> heap \<Rightarrow> slice \<Rightarrow> slice \<Rightarrow> slice \<times> heap" where
  "GlobalStateKeyForUserPkContactPkToMostRecentReadTstampNanos_mem growcap prefixVar h userPubKey
     contactPubKey =
     (case go_append growcap h empty_slice
             (slice_bytes h (prefixVar KindMostRecentReadTstampNanos)) of
        (prefixCopy, h) \<Rightarrow>
          (case go_append growcap h prefixCopy (slice_bytes h userPubKey) of
             (key, h) \<Rightarrow>
               (case go_append growcap h key (slice_bytes h contactPubKey) of
                  (key, h) \<Rightarrow> (key, h))))"

text \<open>
  The prefix variables hold what lines 71-113 assign. A slice is owned since \<open>h0\<close> in a
  later heap \<open>h\<close> when \<open>h\<close> starts with \<open>h0\<close> unchanged and the slice lies in an array
  allocated after \<open>h0\<close>. A call returns a fresh key when the returned slice is owned since
  the heap of the call and holds the expected bytes.
\<close>

definition prefixes_ok :: "(record_kind \<Rightarrow> slice) \<Rightarrow> heap \<Rightarrow> bool" where
  "prefixes_ok prefixVar h =
     list_all (\<lambda>k. valid_slice h (prefixVar k) \<and> slice_bytes h (prefixVar k) = prefix_of_kind k)
       all_kinds"

definition owned_since :: "heap \<Rightarrow> heap \<Rightarrow> slice \<Rightarrow> bool" where
  "owned_since h0 h s =
     (take (length h0) h = h0 \<and> valid_slice h s \<and>
      (case arr s of None \<Rightarrow> False | Some a \<Rightarrow> length h0 \<le> a))"

definition returns_fresh :: "heap \<Rightarrow> slice \<times> heap \<Rightarrow> bytes \<Rightarrow> bool" where
  "returns_fresh h r expected =
     (case r of (key, h') \<Rightarrow> owned_since h h' key \<and> slice_bytes h' key = expected)"

definition returns_fresh_or_panics ::
  "heap \<Rightarrow> panic + (slice \<times> heap) \<Rightarrow> panic + bytes \<Rightarrow> bool" where
  "returns_fresh_or_panics h r expected =
     (case r of
        Inl p \<Rightarrow> expected = Inl p
      | Inr kh \<Rightarrow> (case expected of Inl p \<Rightarrow> False | Inr key \<Rightarrow> returns_fresh h kh key))"

subsection \<open>Sample servers, networks and heaps\<close>

text \<open>Concrete instances of the parameters, on which the theorems below are evaluated.\<close>

definition sample_db :: "(bytes \<rightharpoonup> bytes) \<Rightarrow> badger_DB" where
  "sample_db m =
     \<lparr>kv = m, begin_fault = None, get_fault = (\<lambda>k. None), copy_fault = (\<lambda>k. None),
      set_fault = (\<lambda>k v. None), delete_fault = (\<lambda>k. None), commit_fault = None\<rparr>"

definition local_server :: "badger_DB \<Rightarrow> APIServer" where
  "local_server db =
     \<lparr>GlobalStateRemoteNode = '''', GlobalStateRemoteNodeSharedSecret = '''', GlobalStateDB = db\<rparr>"

definition remote_server :: APIServer where
  "remote_server =
     \<lparr>GlobalStateRemoteNode = ''https://owner.example'',
      GlobalStateRemoteNodeSharedSecret = ''s3cret'',
      GlobalStateDB = sample_db Map.empty\<rparr>"

definition sample_env :: "(string + http_Response) \<Rightarrow> env" where
  "sample_env reply =
     \<lparr>http_Post = (\<lambda>url contentType body. reply),
      json_Marshal = (\<lambda>req. Inr [0x7B, 0x7D]),
      json_Decode_Get = (\<lambda>body. body),
      json_Decode_BatchGet = (\<lambda>body. [body]),
      json_Decode_Seek = (\<lambda>body. ([], [])),
      DBGetPaginatedKeysAndValuesForPrefix =
        (\<lambda>db startPrefix validForPrefix maxKeyLen numToFetch reverse fetchValues. Inr ([], []))\<rparr>"

fun kind_index :: "record_kind \<Rightarrow> nat" where
  "kind_index KindUserMetadata = 0"
| "kind_index KindTstampPostHash = 1"
| "kind_index KindPhoneNumberMetadata = 2"
| "kind_index KindVerifiedMap = 3"
| "kind_index KindTstampPinnedPostHash = 4"
| "kind_index KindUsernameVerificationAuditLog = 5"
| "kind_index KindGraylistState = 6"
| "kind_index KindBlacklistState = 7"
| "kind_index KindMostRecentReadTstampNanos = 8"

definition sample_heap :: heap where
  "sample_heap =
     [[0], [1], [2], [3], [4], [5], [6], [7], [8], [0xAA, 0xBB, 0xCC], [0x11, 0x22]]"

definition sample_prefixVar :: "record_kind \<Rightarrow> slice" where
  "sample_prefixVar k = \<lparr>arr = Some (kind_index k), off = 0, len = 1, cap = 1\<rparr>"

definition sample_pubkey :: slice where
  "sample_pubkey = \<lparr>arr = Some 9, off = 0, len = 3, cap = 3\<rparr>"

definition sample_contact :: slice where
  "sample_contact = \<lparr>arr = Some 10, off = 0, len = 2, cap = 2\<rparr>"

definition sample_growcap :: "nat \<Rightarrow> nat \<Rightarrow> nat" where
  "sample_growcap oldcap needed = (if needed \<le> 8 then 8 else 2 * needed)"

text \<open>
  A database that holds one key, an environment whose network is not reachable, and two
  databases whose engine fails: one at every lookup, one at copying the value of the key.
\<close>

definition stored_db :: badger_DB where
  "stored_db = sample_db [[0, 1, 2] \<mapsto> [0x78]]"

definition offline_env :: env where
  "offline_env = sample_env (Inl ''dial tcp: connection refused'')"

definition lookup_failing_db :: badger_DB where
  "lookup_failing_db = stored_db\<lparr>get_fault := (\<lambda>k. Some ''disk I/O error'')\<rparr>"

definition copy_failing_db :: badger_DB where
  "copy_failing_db =
     stored_db\<lparr>copy_fault := (\<lambda>k. if k = [0, 1, 2] then Some ''checksum mismatch'' else None)\<rparr>"

text \<open>
  A database whose engine refuses the empty key in a lookup, a write and a delete, as the
  embedded engine does, with the engine's message.
\<close>

definition empty_key_refusing_db :: badger_DB where
  "empty_key_refusing_db =
     stored_db
       \<lparr>get_fault := (\<lambda>k. if k = [] then Some ''Key cannot be empty'' else None),
        set_fault := (\<lambda>k v. if k = [] then Some ''Key cannot be empty'' else None),
        delete_fault := (\<lambda>k. if k = [] then Some ''Key cannot be empty'' else None)\<rparr>"

text \<open>
  An instance of the Unicode parameter with the entries of the tables for the Latin
  letters \<open>U+00C0\<close> to \<open>U+00FF\<close> and the Greek letters \<open>U+0391\<close> to \<open>U+03C9\<close>: a capital
  letter gives its small letter, and a small letter, the final sigma \<open>U+03C2\<close> among them,
  gives itself. Any other rune of two bytes is returned as it is, and any other byte from
  \<open>0x80\<close> on is taken for an invalid one, which becomes the replacement rune: the instance
  is meant for strings of these letters.
\<close>

definition sample_unicodeLower :: "gostring \<Rightarrow> gostring \<times> nat" where
  "sample_unicodeLower run =
     (case run of
        c # d # rest \<Rightarrow>
          if c = 0xC3 \<and> 0x80 \<le> d \<and> d \<le> 0x9E \<and> d \<noteq> 0x97 then ([0xC3, d + 0x20], 2)
          else if c = 0xCE \<and> 0x91 \<le> d \<and> d \<le> 0x9F then ([0xCE, d + 0x20], 2)
          else if c = 0xCE \<and> 0xA0 \<le> d \<and> d \<le> 0xA9 \<and> d \<noteq> 0xA2 then ([0xCF, d - 0x20], 2)
          else if 0xC2 \<le> c \<and> c \<le> 0xDF \<and> 0x80 \<le> d \<and> d \<le> 0xBF then ([c, d], 2)
          else ([0xEF, 0xBF, 0xBD], 1)
      | _ \<Rightarrow> ([0xEF, 0xBF, 0xBD], 1))"

section \<open>Properties of the key codec\<close>

lemmas prefix_defs =
  GlobalStatePrefixPublicKeyToUserMetadata_def
  GlobalStatePrefixTstampNanosPostHash_def
  GlobalStatePrefixPhoneNumberToPhoneNumberMetadata_def
  GlobalStatePrefixForVerifiedMap_def
  GlobalStatePrefixTstampNanosPinnedPostHash_def
  GlobalStatePrefixUsernameVerificationAuditLog_def
  GlobalStatePrefixPublicKeyToGraylistState_def
  GlobalStatePrefixPublicKeyToBlacklistState_def
  GlobalStatePrefixUserPublicKeyContactPublicKeyToMostRecentReadTstampNanos_def

lemmas key_defs =
  globalStateKeyForPhoneNumberBytesToPhoneNumberMetadata_def
  GlobalStateKeyForPhoneNumberStringToPhoneNumberMetadata_def
  GlobalStateKeyForPublicKeyToUserMetadata_def
  GlobalStateKeyForTstampPostHash_def
  GlobalStateKeyForTstampPinnedPostHash_def
  GlobalStateKeyForUsernameVerificationAuditLogs_def
  GlobalStateKeyForGraylistedProfile_def
  GlobalStateKeyForBlacklistedProfile_def
  GlobalStateKeyForUserPkContactPkToMostRecentReadTstampNanos_def

subsection \<open>Phone numbers\<close>

text \<open>
  Claim C6. Two strings that the phone-number library parses to the same number get the
  same key, the phone prefix followed by the E.164 form of that number; a string that the
  library fails to parse gets an error and no key.
\<close>

theorem phone_key_of_same_number:
  "(Parse s1 [] = Inr p \<and> Parse s2 [] = Inr p \<longrightarrow>
      GlobalStateKeyForPhoneNumberStringToPhoneNumberMetadata Parse Format s1 =
        Inr (GlobalStatePrefixPhoneNumberToPhoneNumberMetadata @ Format p E164)
    \<and> GlobalStateKeyForPhoneNumberStringToPhoneNumberMetadata Parse Format s2 =
        GlobalStateKeyForPhoneNumberStringToPhoneNumberMetadata Parse Format s1)
 \<and> (Parse s [] = Inl err \<longrightarrow>
      returned_key (GlobalStateKeyForPhoneNumberStringToPhoneNumberMetadata Parse Format s) = None
    \<and> (\<exists>msg. GlobalStateKeyForPhoneNumberStringToPhoneNumberMetadata Parse Format s = Inl msg))"
  by (simp add: GlobalStateKeyForPhoneNumberStringToPhoneNumberMetadata_def
      globalStateKeyForPhoneNumberBytesToPhoneNumberMetadata_def returned_key_def)

theorem phone_key_of_same_number_witness:
  "sample_Parse (map of_char ''+1 (415) 555-0100'') [] = Inr (map of_char ''14155550100'')
 \<and> sample_Parse (map of_char ''14155550100'') [] = Inr (map of_char ''14155550100'')
 \<and> GlobalStateKeyForPhoneNumberStringToPhoneNumberMetadata sample_Parse sample_Format
      (map of_char ''+1 (415) 555-0100'') = Inr (2 # map of_char ''+14155550100'')
 \<and> GlobalStateKeyForPhoneNumberStringToPhoneNumberMetadata sample_Parse sample_Format
      (map of_char ''14155550100'') = Inr (2 # map of_char ''+14155550100'')
 \<and> sample_Parse (map of_char ''call me'') [] = Inl ''the phone number supplied is not a number''
 \<and> returned_key (GlobalStateKeyForPhoneNumberStringToPhoneNumberMetadata sample_Parse
      sample_Format (map of_char ''call me'')) = None"
proof -
  have p1: "sample_Parse (map of_char ''+1 (415) 555-0100'') [] = Inr (map of_char ''14155550100'')"
    by (simp add: sample_Parse_def isDigit_def)
  have p2: "sample_Parse (map of_char ''14155550100'') [] = Inr (map of_char ''14155550100'')"
    by (simp add: sample_Parse_def isDigit_def)
  have p3: "sample_Parse (map of_char ''call me'') [] = Inl ''the phone number supplied is not a number''"
    by (simp add: sample_Parse_def isDigit_def)
  note c = phone_key_of_same_number [of sample_Parse "map of_char ''+1 (415) 555-0100''"
      "map of_char ''14155550100''" "map of_char ''14155550100''" sample_Format
      "map of_char ''call me''" "''the phone number supplied is not a number''"]
  from c p1 p2
  have k1: "GlobalStateKeyForPhoneNumberStringToPhoneNumberMetadata sample_Parse sample_Format
      (map of_char ''+1 (415) 555-0100'') =
      Inr (GlobalStatePrefixPhoneNumberToPhoneNumberMetadata
             @ sample_Format (map of_char ''14155550100'') E164)"
    and k2: "GlobalStateKeyForPhoneNumberStringToPhoneNumberMetadata sample_Parse sample_Format
      (map of_char ''14155550100'') =
      GlobalStateKeyForPhoneNumberStringToPhoneNumberMetadata sample_Parse sample_Format
      (map of_char ''+1 (415) 555-0100'')"
    by blast+
  from c p3
  have k3: "returned_key (GlobalStateKeyForPhoneNumberStringToPhoneNumberMetadata sample_Parse
      sample_Format (map of_char ''call me'')) = None"
    by blast
  have v: "GlobalStatePrefixPhoneNumberToPhoneNumberMetadata
             @ sample_Format (map of_char ''14155550100'') E164
           = 2 # map of_char ''+14155550100''"
    by (simp add: prefix_defs sample_Format_def)
  show ?thesis using p1 p2 p3 k1 k2 k3 v by (simp only: simp_thms)
qed

subsection \<open>Usernames\<close>

lemma upper_plus_32:
  "isUpperASCII c \<Longrightarrow> c < RuneSelf \<and> \<not> isUpperASCII (c + 0x20) \<and> c + 0x20 < RuneSelf"
  unfolding isUpperASCII_def RuneSelf_def
  by (auto simp: word_le_nat_alt word_less_nat_alt unat_word_ariths)

lemma same_letter_lower: "same_letter_up_to_ASCII_case c d \<Longrightarrow> toLowerASCII c = toLowerASCII d"
  unfolding same_letter_up_to_ASCII_case_def toLowerASCII_def using upper_plus_32 by auto

lemma same_letter_ascii: "same_letter_up_to_ASCII_case c d \<Longrightarrow> c < RuneSelf \<longleftrightarrow> d < RuneSelf"
  unfolding same_letter_up_to_ASCII_case_def using upper_plus_32 by auto

lemma same_letter_not_ascii: "same_letter_up_to_ASCII_case c d \<Longrightarrow> \<not> c < RuneSelf \<Longrightarrow> c = d"
  unfolding same_letter_up_to_ASCII_case_def using upper_plus_32 by auto

lemma same_run:
  "list_all2 same_letter_up_to_ASCII_case u v \<Longrightarrow>
   takeWhile (\<lambda>b. RuneSelf \<le> b) u = takeWhile (\<lambda>b. RuneSelf \<le> b) v"
proof (induction u v rule: list_all2_induct)
  case Nil
  then show ?case by simp
next
  case (Cons c u d v)
  then show ?case
    using same_letter_ascii [of c d] same_letter_not_ascii [of c d]
    by (auto simp: not_le not_less)
qed

lemma Map_ToLower_ignores_case:
  "list_all2 same_letter_up_to_ASCII_case u v \<Longrightarrow>
   strings_Map_unicode_ToLower unicodeLower u = strings_Map_unicode_ToLower unicodeLower v"
proof (induction unicodeLower u arbitrary: v rule: strings_Map_unicode_ToLower.induct)
  case (1 unicodeLower)
  then show ?case by simp
next
  case (2 unicodeLower c s)
  from "2.prems" obtain d t where v: "v = d # t" and cd: "same_letter_up_to_ASCII_case c d"
    and st: "list_all2 same_letter_up_to_ASCII_case s t"
    by (auto simp: list_all2_Cons1)
  show ?case
  proof (cases "c < RuneSelf")
    case True
    then have d: "d < RuneSelf" using cd same_letter_ascii by blast
    have "strings_Map_unicode_ToLower unicodeLower s = strings_Map_unicode_ToLower unicodeLower t"
      using "2.IH"(1) [OF True st] .
    then show ?thesis using True d v same_letter_lower [OF cd] by simp
  next
    case False
    then have eq: "d = c" using cd same_letter_not_ascii by blast
    have run: "takeWhile (\<lambda>b. RuneSelf \<le> b) (c # s) = takeWhile (\<lambda>b. RuneSelf \<le> b) (c # t)"
      using same_run [of "c # s" "c # t"] st cd eq by simp
    obtain lowered width where
      lr: "unicodeLower (takeWhile (\<lambda>b. RuneSelf \<le> b) (c # s)) = (lowered, width)"
      by fastforce
    have "list_all2 same_letter_up_to_ASCII_case (drop (width - 1) s) (drop (width - 1) t)"
      using st by (rule list_all2_dropI)
    from "2.IH"(2) [OF False lr [symmetric] this]
    have "strings_Map_unicode_ToLower unicodeLower (drop (width - 1) s) =
          strings_Map_unicode_ToLower unicodeLower (drop (width - 1) t)" .
    then show ?thesis using False v eq lr run by simp
  qed
qed

lemma differ_in_case_ascii:
  "list_all2 same_letter_up_to_ASCII_case u v \<Longrightarrow>
   list_all (\<lambda>c. c < RuneSelf) u \<longleftrightarrow> list_all (\<lambda>c. c < RuneSelf) v"
  by (induction u v rule: list_all2_induct) (auto dest: same_letter_ascii)

lemma differ_in_case_lower:
  "list_all2 same_letter_up_to_ASCII_case u v \<Longrightarrow> map toLowerASCII u = map toLowerASCII v"
  by (induction u v rule: list_all2_induct) (auto dest: same_letter_lower)

lemma ToLower_ascii:
  "list_all (\<lambda>c. c < RuneSelf) s \<Longrightarrow> strings_ToLower unicodeLower s = map toLowerASCII s"
  unfolding strings_ToLower_def Let_def
  by (auto simp: list_ex_iff list_all_iff toLowerASCII_def intro!: map_idI [symmetric])

lemma ToLower_ignores_case:
  assumes "differ_only_in_ASCII_letter_case u v"
  shows "strings_ToLower unicodeLower u = strings_ToLower unicodeLower v"
proof (cases "list_all (\<lambda>c. c < RuneSelf) u")
  case True
  then have "list_all (\<lambda>c. c < RuneSelf) v"
    using assms differ_in_case_ascii by (simp add: differ_only_in_ASCII_letter_case_def)
  then show ?thesis using True assms differ_in_case_lower
    by (simp add: ToLower_ascii differ_only_in_ASCII_letter_case_def)
next
  case False
  then have "\<not> list_all (\<lambda>c. c < RuneSelf) v"
    using assms differ_in_case_ascii by (simp add: differ_only_in_ASCII_letter_case_def)
  then show ?thesis using False assms Map_ToLower_ignores_case
    by (simp add: strings_ToLower_def differ_only_in_ASCII_letter_case_def)
qed

text \<open>
  Claim C7, as the code has it. Two usernames get the same audit-log key exactly when
  \<^verbatim>\<open>strings.ToLower\<close> gives them the same string. It does so, whatever the Unicode
  tables are, for every two usernames that differ only in the case of ASCII letters.
\<close>

theorem audit_log_key_ignores_ascii_case:
  "(GlobalStateKeyForUsernameVerificationAuditLogs unicodeLower u =
      GlobalStateKeyForUsernameVerificationAuditLogs unicodeLower v \<longleftrightarrow>
    strings_ToLower unicodeLower u = strings_ToLower unicodeLower v)
 \<and> (differ_only_in_ASCII_letter_case u v \<longrightarrow>
      GlobalStateKeyForUsernameVerificationAuditLogs unicodeLower u =
      GlobalStateKeyForUsernameVerificationAuditLogs unicodeLower v)"
  using ToLower_ignores_case [of u v unicodeLower]
  by (auto simp: GlobalStateKeyForUsernameVerificationAuditLogs_def)

text \<open>
  Claim C7 as stated fails beyond ASCII: the Greek word written in capitals, sigma alpha
  sigma, and the same word in small letters, which ends in a final sigma, differ only in
  letter case. Every capital sigma is lower-cased to the plain small sigma, the final
  sigma is left as it is, and the two usernames get different keys.
\<close>

theorem audit_log_keys_of_final_sigma_differ:
  "strings_ToLower sample_unicodeLower [0xCE, 0xA3, 0xCE, 0x91, 0xCE, 0xA3] =
     [0xCF, 0x83, 0xCE, 0xB1, 0xCF, 0x83]
 \<and> strings_ToLower sample_unicodeLower [0xCF, 0x83, 0xCE, 0xB1, 0xCF, 0x82] =
     [0xCF, 0x83, 0xCE, 0xB1, 0xCF, 0x82]
 \<and> GlobalStateKeyForUsernameVerificationAuditLogs sample_unicodeLower
      [0xCE, 0xA3, 0xCE, 0x91, 0xCE, 0xA3] = [5, 0xCF, 0x83, 0xCE, 0xB1, 0xCF, 0x83]
 \<and> GlobalStateKeyForUsernameVerificationAuditLogs sample_unicodeLower
      [0xCF, 0x83, 0xCE, 0xB1, 0xCF, 0x82] = [5, 0xCF, 0x83, 0xCE, 0xB1, 0xCF, 0x82]
 \<and> GlobalStateKeyForUsernameVerificationAuditLogs sample_unicodeLower
      [0xCE, 0xA3, 0xCE, 0x91, 0xCE, 0xA3] \<noteq>
   GlobalStateKeyForUsernameVerificationAuditLogs sample_unicodeLower
      [0xCF, 0x83, 0xCE, 0xB1, 0xCF, 0x82]"
  by (simp add: GlobalStateKeyForUsernameVerificationAuditLogs_def strings_ToLower_def
      sample_unicodeLower_def toLowerASCII_def isUpperASCII_def RuneSelf_def prefix_defs)

theorem audit_log_key_ignores_ascii_case_witness:
  "differ_only_in_ASCII_letter_case (map of_char ''Alice_99'') (map of_char ''aLICE_99'')
 \<and> GlobalStateKeyForUsernameVerificationAuditLogs sample_unicodeLower (map of_char ''Alice_99'') =
   GlobalStateKeyForUsernameVerificationAuditLogs sample_unicodeLower (map of_char ''aLICE_99'')
 \<and> GlobalStateKeyForUsernameVerificationAuditLogs sample_unicodeLower (map of_char ''Alice_99'') =
   5 # map of_char ''alice_99''
 \<and> differ_only_in_ASCII_letter_case ([0xC3, 0x89] @ map of_char ''ric'')
      ([0xC3, 0x89] @ map of_char ''RIC'')
 \<and> GlobalStateKeyForUsernameVerificationAuditLogs sample_unicodeLower
      ([0xC3, 0x89] @ map of_char ''ric'') =
   GlobalStateKeyForUsernameVerificationAuditLogs sample_unicodeLower
      ([0xC3, 0x89] @ map of_char ''RIC'')
 \<and> GlobalStateKeyForUsernameVerificationAuditLogs sample_unicodeLower
      ([0xC3, 0x89] @ map of_char ''RIC'') = [5, 0xC3, 0xA9] @ map of_char ''ric''"
proof -
  have d1: "differ_only_in_ASCII_letter_case (map of_char ''Alice_99'') (map of_char ''aLICE_99'')"
    by (simp add: differ_only_in_ASCII_letter_case_def same_letter_up_to_ASCII_case_def
        isUpperASCII_def)
  from audit_log_key_ignores_ascii_case [of sample_unicodeLower "map of_char ''Alice_99''"
      "map of_char ''aLICE_99''"] d1
  have k1: "GlobalStateKeyForUsernameVerificationAuditLogs sample_unicodeLower
        (map of_char ''Alice_99'') =
      GlobalStateKeyForUsernameVerificationAuditLogs sample_unicodeLower
        (map of_char ''aLICE_99'')"
    by blast
  have v1: "GlobalStateKeyForUsernameVerificationAuditLogs sample_unicodeLower
        (map of_char ''Alice_99'') = 5 # map of_char ''alice_99''"
    by (simp add: GlobalStateKeyForUsernameVerificationAuditLogs_def strings_ToLower_def
        toLowerASCII_def isUpperASCII_def RuneSelf_def prefix_defs)
  have d2: "differ_only_in_ASCII_letter_case ([0xC3, 0x89] @ map of_char ''ric'')
      ([0xC3, 0x89] @ map of_char ''RIC'')"
    by (simp add: differ_only_in_ASCII_letter_case_def same_letter_up_to_ASCII_case_def
        isUpperASCII_def)
  from audit_log_key_ignores_ascii_case [of sample_unicodeLower
      "[0xC3, 0x89] @ map of_char ''ric''" "[0xC3, 0x89] @ map of_char ''RIC''"] d2
  have k2: "GlobalStateKeyForUsernameVerificationAuditLogs sample_unicodeLower
        ([0xC3, 0x89] @ map of_char ''ric'') =
      GlobalStateKeyForUsernameVerificationAuditLogs sample_unicodeLower
        ([0xC3, 0x89] @ map of_char ''RIC'')"
    by blast
  have v2: "GlobalStateKeyForUsernameVerificationAuditLogs sample_unicodeLower
        ([0xC3, 0x89] @ map of_char ''RIC'') = [5, 0xC3, 0xA9] @ map of_char ''ric''"
    by (simp add: GlobalStateKeyForUsernameVerificationAuditLogs_def strings_ToLower_def
        sample_unicodeLower_def toLowerASCII_def isUpperASCII_def RuneSelf_def prefix_defs)
  show ?thesis by (intro conjI d1 k1 v1 d2 k2 v2)
qed

subsection \<open>Kinds do not collide\<close>

lemma key_begins_with_prefix:
  "key_of_call Parse Format unicodeLower a = Some k \<Longrightarrow>
   take 1 k = prefix_of_kind (kind_of_call a)"
  by (cases a)
     (auto simp: key_defs prefix_defs returned_key_def Let_def split: sum.splits option.splits)

lemma prefix_of_kind_inj: "prefix_of_kind k1 = prefix_of_kind k2 \<Longrightarrow> k1 = k2"
  by (cases k1; cases k2; simp add: prefix_defs)

text \<open>
  Claim C8. The keys that two calls of key constructors of distinct record kinds return
  are never equal: each key begins with the prefix byte of its kind, and the nine declared
  prefixes are the bytes 0 to 8, pairwise distinct.
\<close>

theorem keys_of_distinct_kinds_differ:
  assumes "key_of_call Parse Format unicodeLower a = Some ka"
    and "key_of_call Parse Format unicodeLower b = Some kb"
    and "kind_of_call a \<noteq> kind_of_call b"
  shows "ka \<noteq> kb
       \<and> take 1 ka = prefix_of_kind (kind_of_call a)
       \<and> take 1 kb = prefix_of_kind (kind_of_call b)
       \<and> map prefix_of_kind all_kinds = [[0], [1], [2], [3], [4], [5], [6], [7], [8]]
       \<and> distinct (map prefix_of_kind all_kinds)"
proof -
  have a: "take 1 ka = prefix_of_kind (kind_of_call a)"
    using assms(1) by (rule key_begins_with_prefix)
  have b: "take 1 kb = prefix_of_kind (kind_of_call b)"
    using assms(2) by (rule key_begins_with_prefix)
  have "prefix_of_kind (kind_of_call a) \<noteq> prefix_of_kind (kind_of_call b)"
    using assms(3) prefix_of_kind_inj by blast
  then have "ka \<noteq> kb" using a b by auto
  moreover have "map prefix_of_kind all_kinds = [[0], [1], [2], [3], [4], [5], [6], [7], [8]]"
    by (simp add: all_kinds_def prefix_defs)
  moreover from this have "distinct (map prefix_of_kind all_kinds)" by simp
  ultimately show ?thesis using a b by simp
qed

theorem keys_of_distinct_kinds_differ_witness:
  "key_of_call sample_Parse sample_Format sample_unicodeLower (CallGraylistedProfile [0xAA, 0xBB]) =
     Some [6, 0xAA, 0xBB]
 \<and> key_of_call sample_Parse sample_Format sample_unicodeLower (CallBlacklistedProfile [0xAA, 0xBB]) =
     Some [7, 0xAA, 0xBB]
 \<and> kind_of_call (CallGraylistedProfile [0xAA, 0xBB]) = KindGraylistState
 \<and> kind_of_call (CallBlacklistedProfile [0xAA, 0xBB]) = KindBlacklistState
 \<and> [6, 0xAA, 0xBB] \<noteq> [7, 0xAA, 0xBB :: byte]
 \<and> take 1 [6, 0xAA, 0xBB :: byte] = prefix_of_kind KindGraylistState"
proof -
  have a: "key_of_call sample_Parse sample_Format sample_unicodeLower (CallGraylistedProfile [0xAA, 0xBB]) =
      Some [6, 0xAA, 0xBB]"
    by (simp add: key_defs prefix_defs)
  have b: "key_of_call sample_Parse sample_Format sample_unicodeLower (CallBlacklistedProfile [0xAA, 0xBB]) =
      Some [7, 0xAA, 0xBB]"
    by (simp add: key_defs prefix_defs)
  have ka: "kind_of_call (CallGraylistedProfile [0xAA, 0xBB]) = KindGraylistState"
    and kb: "kind_of_call (CallBlacklistedProfile [0xAA, 0xBB]) = KindBlacklistState"
    by simp_all
  have d: "kind_of_call (CallGraylistedProfile [0xAA, 0xBB]) \<noteq>
           kind_of_call (CallBlacklistedProfile [0xAA, 0xBB])"
    by simp
  note c = keys_of_distinct_kinds_differ [OF a b d]
  from c have n: "[6, 0xAA, 0xBB] \<noteq> [7, 0xAA, 0xBB :: byte]" by (rule conjunct1)
  from c have "take 1 [6, 0xAA, 0xBB :: byte] =
      prefix_of_kind (kind_of_call (CallGraylistedProfile [0xAA, 0xBB]))"
    by (rule conjunct2 [THEN conjunct1])
  then have t: "take 1 [6, 0xAA, 0xBB :: byte] = prefix_of_kind KindGraylistState"
    by (simp only: ka)
  show ?thesis by (intro conjI a b ka kb n t)
qed

section \<open>Properties of the primitives\<close>

lemmas create_defs =
  CreateGlobalStatePutRequest_def CreateGlobalStateGetRequest_def
  CreateGlobalStateBatchGetRequest_def CreateGlobalStateDeleteRequest_def
  CreateGlobalStateSeekRequest_def

lemmas primitive_defs =
  GlobalStatePut_def GlobalStateGet_def GlobalStateBatchGet_def GlobalStateDelete_def
  GlobalStateSeek_def

lemmas sample_defs =
  sample_db_def local_server_def remote_server_def sample_env_def stored_db_def
  offline_env_def lookup_failing_db_def copy_failing_db_def

subsection \<open>The local path\<close>

lemma put_local:
  "GlobalStateRemoteNode fes = '''' \<Longrightarrow> engine_put_ok (GlobalStateDB fes) key val \<Longrightarrow>
   GlobalStatePut e fes key val =
     (None,
      fes\<lparr>GlobalStateDB := (GlobalStateDB fes)\<lparr>kv := (kv (GlobalStateDB fes))(key \<mapsto> val)\<rparr>\<rparr>,
      [DB_UPDATE])"
  by (simp add: GlobalStatePut_def DB_Update_def txn_Set_def engine_put_ok_def)

lemma delete_local:
  "GlobalStateRemoteNode fes = '''' \<Longrightarrow> engine_delete_ok (GlobalStateDB fes) key \<Longrightarrow>
   GlobalStateDelete e fes key =
     (None,
      fes\<lparr>GlobalStateDB := (GlobalStateDB fes)\<lparr>kv := (kv (GlobalStateDB fes))(key := None)\<rparr>\<rparr>,
      [DB_UPDATE])"
  by (simp add: GlobalStateDelete_def DB_Update_def txn_Delete_def engine_delete_ok_def)

lemma get_local:
  "GlobalStateRemoteNode fes = '''' \<Longrightarrow> engine_reads_ok (GlobalStateDB fes) [key] \<Longrightarrow>
   GlobalStateGet e fes key = (Inr (stored_or_empty (GlobalStateDB fes) key), fes, [DB_VIEW])"
  by (simp add: GlobalStateGet_def DB_View_def txn_Get_def Item_ValueCopy_def
      engine_reads_ok_def stored_or_empty_def split: option.splits)

lemma put_fails_iff:
  "GlobalStateRemoteNode fes = '''' \<Longrightarrow>
   fst (GlobalStatePut e fes key val) = None \<longleftrightarrow> engine_put_ok (GlobalStateDB fes) key val"
  by (auto simp: GlobalStatePut_def DB_Update_def txn_Set_def engine_put_ok_def
      split: option.splits)

lemma delete_fails_iff:
  "GlobalStateRemoteNode fes = '''' \<Longrightarrow>
   fst (GlobalStateDelete e fes key) = None \<longleftrightarrow> engine_delete_ok (GlobalStateDB fes) key"
  by (auto simp: GlobalStateDelete_def DB_Update_def txn_Delete_def engine_delete_ok_def
      split: option.splits)

lemma failed_write_keeps_store:
  "GlobalStateRemoteNode fes = '''' \<Longrightarrow>
   (fst (GlobalStatePut e fes key val) \<noteq> None \<longrightarrow>
      fst (snd (GlobalStatePut e fes key val)) = fes)
 \<and> (fst (GlobalStateDelete e fes key) \<noteq> None \<longrightarrow>
      fst (snd (GlobalStateDelete e fes key)) = fes)"
  by (auto simp: GlobalStatePut_def GlobalStateDelete_def DB_Update_def txn_Set_def
      txn_Delete_def split: option.splits)

text \<open>
  Claim C1, as the code has it. On a server with no remote node, for every key, value and
  store: a put returns no error exactly when the engine opens the transaction, accepts the
  write and commits it, and a get of the key on the server it leaves then returns the
  value; a delete returns no error exactly when the engine opens the transaction, accepts
  the delete and commits it, and a get of the key on the server it leaves then returns the
  empty value. The get returns no error in both cases, when the engine serves the read. A
  put or a delete that returns an error leaves the server as it was.
\<close>

theorem put_get_delete_round_trip:
  assumes "GlobalStateRemoteNode fes = ''''"
  shows "(fst (GlobalStatePut e fes key val) = None \<longleftrightarrow>
            engine_put_ok (GlobalStateDB fes) key val)
       \<and> (fst (GlobalStatePut e fes key val) = None
            \<and> engine_reads_ok (GlobalStateDB fes) [key] \<longrightarrow>
          fst (GlobalStateGet e (fst (snd (GlobalStatePut e fes key val))) key) = Inr val)
       \<and> (fst (GlobalStateDelete e fes key) = None \<longleftrightarrow>
            engine_delete_ok (GlobalStateDB fes) key)
       \<and> (fst (GlobalStateDelete e fes key) = None
            \<and> engine_reads_ok (GlobalStateDB fes) [key] \<longrightarrow>
          fst (GlobalStateGet e (fst (snd (GlobalStateDelete e fes key))) key) = Inr [])
       \<and> (fst (GlobalStatePut e fes key val) \<noteq> None \<longrightarrow>
            fst (snd (GlobalStatePut e fes key val)) = fes)
       \<and> (fst (GlobalStateDelete e fes key) \<noteq> None \<longrightarrow>
            fst (snd (GlobalStateDelete e fes key)) = fes)"
proof -
  let ?db = "GlobalStateDB fes"
  let ?fes1 = "fes\<lparr>GlobalStateDB := ?db\<lparr>kv := (kv ?db)(key \<mapsto> val)\<rparr>\<rparr>"
  let ?fes2 = "fes\<lparr>GlobalStateDB := ?db\<lparr>kv := (kv ?db)(key := None)\<rparr>\<rparr>"
  have p: "fst (GlobalStatePut e fes key val) = None \<longleftrightarrow> engine_put_ok ?db key val"
    using assms by (rule put_fails_iff)
  have d: "fst (GlobalStateDelete e fes key) = None \<longleftrightarrow> engine_delete_ok ?db key"
    using assms by (rule delete_fails_iff)
  have g1: "fst (GlobalStateGet e (fst (snd (GlobalStatePut e fes key val))) key) = Inr val"
    if "fst (GlobalStatePut e fes key val) = None" and r: "engine_reads_ok ?db [key]"
  proof -
    from that p have "engine_put_ok ?db key val" by blast
    then have "GlobalStatePut e fes key val = (None, ?fes1, [DB_UPDATE])"
      using assms put_local by blast
    moreover have "engine_reads_ok (GlobalStateDB ?fes1) [key]"
      using r by (simp add: engine_reads_ok_def)
    then have "fst (GlobalStateGet e ?fes1 key) = Inr val"
      using assms by (simp add: get_local stored_or_empty_def)
    ultimately show ?thesis by simp
  qed
  have g2: "fst (GlobalStateGet e (fst (snd (GlobalStateDelete e fes key))) key) = Inr []"
    if "fst (GlobalStateDelete e fes key) = None" and r: "engine_reads_ok ?db [key]"
  proof -
    from that d have "engine_delete_ok ?db key" by blast
    then have "GlobalStateDelete e fes key = (None, ?fes2, [DB_UPDATE])"
      using assms delete_local by blast
    moreover have "engine_reads_ok (GlobalStateDB ?fes2) [key]"
      using r by (simp add: engine_reads_ok_def)
    then have "fst (GlobalStateGet e ?fes2 key) = Inr []"
      using assms by (simp add: get_local stored_or_empty_def)
    ultimately show ?thesis by simp
  qed
  show ?thesis using p d g1 g2 failed_write_keeps_store [OF assms, of e key val] by blast
qed

text \<open>
  Claim C1 as stated fails for the empty key, which the engine refuses: the put and the
  delete of the empty key return the error of the engine, and the store stays as it was.
\<close>

theorem put_of_empty_key_is_refused:
  "GlobalStateRemoteNode (local_server empty_key_refusing_db) = ''''
 \<and> GlobalStatePut offline_env (local_server empty_key_refusing_db) [] [0x78] =
     (Some ''Key cannot be empty'', local_server empty_key_refusing_db, [DB_UPDATE])
 \<and> GlobalStateDelete offline_env (local_server empty_key_refusing_db) [] =
     (Some ''Key cannot be empty'', local_server empty_key_refusing_db, [DB_UPDATE])
 \<and> GlobalStateGet offline_env (local_server empty_key_refusing_db) [] =
     (Inr [], local_server empty_key_refusing_db, [DB_VIEW])"
  by (simp add: sample_defs empty_key_refusing_db_def primitive_defs DB_Update_def DB_View_def
      txn_Set_def txn_Delete_def txn_Get_def)

theorem put_get_delete_round_trip_witness:
  "GlobalStateRemoteNode (local_server empty_key_refusing_db) = ''''
 \<and> engine_put_ok (GlobalStateDB (local_server empty_key_refusing_db)) [0, 1, 2] [0x79, 0x7A]
 \<and> engine_delete_ok (GlobalStateDB (local_server empty_key_refusing_db)) [0, 1, 2]
 \<and> engine_reads_ok (GlobalStateDB (local_server empty_key_refusing_db)) [[0, 1, 2]]
 \<and> fst (GlobalStatePut offline_env (local_server empty_key_refusing_db) [0, 1, 2] [0x79, 0x7A]) =
     None
 \<and> fst (GlobalStateGet offline_env
      (fst (snd (GlobalStatePut offline_env (local_server empty_key_refusing_db) [0, 1, 2]
                   [0x79, 0x7A])))
      [0, 1, 2]) = Inr [0x79, 0x7A]
 \<and> fst (GlobalStateDelete offline_env (local_server empty_key_refusing_db) [0, 1, 2]) = None
 \<and> fst (GlobalStateGet offline_env
      (fst (snd (GlobalStateDelete offline_env (local_server empty_key_refusing_db) [0, 1, 2])))
      [0, 1, 2]) = Inr []
 \<and> fst (GlobalStatePut offline_env (local_server empty_key_refusing_db) [] [0x78]) =
     Some ''Key cannot be empty''
 \<and> fst (snd (GlobalStatePut offline_env (local_server empty_key_refusing_db) [] [0x78])) =
     local_server empty_key_refusing_db"
proof -
  let ?fes = "local_server empty_key_refusing_db"
  have h1: "GlobalStateRemoteNode ?fes = ''''"
    by (simp add: sample_defs)
  have h2: "engine_put_ok (GlobalStateDB ?fes) [0, 1, 2] [0x79, 0x7A]"
    by (simp add: sample_defs empty_key_refusing_db_def engine_put_ok_def)
  have h3: "engine_delete_ok (GlobalStateDB ?fes) [0, 1, 2]"
    by (simp add: sample_defs empty_key_refusing_db_def engine_delete_ok_def)
  have h4: "engine_reads_ok (GlobalStateDB ?fes) [[0, 1, 2]]"
    by (simp add: sample_defs empty_key_refusing_db_def engine_reads_ok_def)
  note c = put_get_delete_round_trip [OF h1, of offline_env "[0, 1, 2]" "[0x79, 0x7A]"]
  from c h2 have p: "fst (GlobalStatePut offline_env ?fes [0, 1, 2] [0x79, 0x7A]) = None"
    by blast
  from c p h4 have g1: "fst (GlobalStateGet offline_env
      (fst (snd (GlobalStatePut offline_env ?fes [0, 1, 2] [0x79, 0x7A]))) [0, 1, 2]) =
      Inr [0x79, 0x7A]"
    by blast
  from c h3 have d: "fst (GlobalStateDelete offline_env ?fes [0, 1, 2]) = None"
    by blast
  from c d h4 have g2: "fst (GlobalStateGet offline_env
      (fst (snd (GlobalStateDelete offline_env ?fes [0, 1, 2]))) [0, 1, 2]) = Inr []"
    by blast
  have e1: "fst (GlobalStatePut offline_env ?fes [] [0x78]) = Some ''Key cannot be empty''"
    by (simp add: sample_defs empty_key_refusing_db_def GlobalStatePut_def DB_Update_def
        txn_Set_def)
  then have "fst (GlobalStatePut offline_env ?fes [] [0x78]) \<noteq> None"
    by simp
  with put_get_delete_round_trip [OF h1, of offline_env "[]" "[0x78]"]
  have e2: "fst (snd (GlobalStatePut offline_env ?fes [] [0x78])) = ?fes"
    by blast
  show ?thesis by (intro conjI h1 h2 h3 h4 p g1 d g2 e1 e2)
qed

subsection \<open>Batch lookups\<close>

lemma batchGet_loop_ok:
  "list_all (\<lambda>k. get_fault txn k = None \<and> copy_fault txn k = None) keyList \<Longrightarrow>
   batchGet_loop txn keyList acc = (acc @ map (stored_or_empty txn) keyList, None)"
  by (induction keyList arbitrary: acc)
     (auto simp: txn_Get_def Item_ValueCopy_def stored_or_empty_def split: option.splits)

lemma batchGet_local:
  "GlobalStateRemoteNode fes = '''' \<Longrightarrow> engine_reads_ok (GlobalStateDB fes) keyList \<Longrightarrow>
   GlobalStateBatchGet e fes keyList =
     (Inr (map (stored_or_empty (GlobalStateDB fes)) keyList), fes, [DB_VIEW])"
  by (simp add: GlobalStateBatchGet_def DB_View_def engine_reads_ok_def batchGet_loop_ok)

text \<open>
  Claim C2, as the code has it. On a server with no remote node, whose engine serves the
  reads of the keys, a batch lookup returns a value list as long as the key list; its
  entry at a position is the stored value of the key at that position when the key is
  present, and the empty byte sequence when it is absent. An entry is therefore empty
  exactly where the key is absent or is stored with an empty value.
\<close>

theorem batch_get_aligned:
  assumes "GlobalStateRemoteNode fes = ''''"
    and "engine_reads_ok (GlobalStateDB fes) keyList"
  shows "\<exists>valueList.
           fst (GlobalStateBatchGet e fes keyList) = Inr valueList
         \<and> length valueList = length keyList
         \<and> (\<forall>i < length keyList.
               (\<forall>v. kv (GlobalStateDB fes) (keyList ! i) = Some v \<longrightarrow> valueList ! i = v)
             \<and> (kv (GlobalStateDB fes) (keyList ! i) = None \<longrightarrow> valueList ! i = [])
             \<and> (valueList ! i = [] \<longleftrightarrow>
                  kv (GlobalStateDB fes) (keyList ! i) = None
                \<or> kv (GlobalStateDB fes) (keyList ! i) = Some []))"
  using batchGet_local [OF assms]
  by (auto simp: stored_or_empty_def split: option.splits)

text \<open>
  Claim C2 as stated fails: after a put of a key with the empty value, the entry of the
  key in a batch lookup is empty although the key is present in the store.
\<close>

theorem batch_get_empty_entry_of_present_key:
  "GlobalStatePut offline_env (local_server (sample_db Map.empty)) [0, 1, 2] [] =
     (None, local_server (sample_db [[0, 1, 2] \<mapsto> []]), [DB_UPDATE])
 \<and> engine_reads_ok (GlobalStateDB (local_server (sample_db [[0, 1, 2] \<mapsto> []]))) [[0, 1, 2]]
 \<and> kv (GlobalStateDB (local_server (sample_db [[0, 1, 2] \<mapsto> []]))) [0, 1, 2] = Some []
 \<and> fst (GlobalStateBatchGet offline_env (local_server (sample_db [[0, 1, 2] \<mapsto> []]))
      [[0, 1, 2]]) = Inr [[]]"
  by (simp add: sample_defs primitive_defs DB_Update_def DB_View_def txn_Set_def txn_Get_def
      Item_ValueCopy_def engine_reads_ok_def)

theorem batch_get_aligned_witness:
  "GlobalStateRemoteNode (local_server stored_db) = ''''
 \<and> engine_reads_ok (GlobalStateDB (local_server stored_db)) [[0, 1, 2], [9, 9, 9]]
 \<and> fst (GlobalStateBatchGet offline_env (local_server stored_db) [[0, 1, 2], [9, 9, 9]]) =
     Inr [[0x78], []]"
proof -
  have h1: "GlobalStateRemoteNode (local_server stored_db) = ''''"
    by (simp add: sample_defs)
  have h2: "engine_reads_ok (GlobalStateDB (local_server stored_db)) [[0, 1, 2], [9, 9, 9]]"
    by (simp add: sample_defs engine_reads_ok_def)
  have s0: "kv (GlobalStateDB (local_server stored_db)) ([[0, 1, 2], [9, 9, 9]] ! 0) = Some [0x78]"
    and s1: "kv (GlobalStateDB (local_server stored_db)) ([[0, 1, 2], [9, 9, 9]] ! 1) = None"
    by (simp_all add: sample_defs)
  from batch_get_aligned [OF h1 h2, of offline_env]
  obtain valueList where r:
      "fst (GlobalStateBatchGet offline_env (local_server stored_db) [[0, 1, 2], [9, 9, 9]]) =
         Inr valueList"
    and l: "length valueList = length [[0, 1, 2], [9, 9, 9 :: byte]]"
    and a: "\<forall>i < length [[0, 1, 2], [9, 9, 9 :: byte]].
               (\<forall>v. kv (GlobalStateDB (local_server stored_db)) ([[0, 1, 2], [9, 9, 9]] ! i) = Some v
                  \<longrightarrow> valueList ! i = v)
             \<and> (kv (GlobalStateDB (local_server stored_db)) ([[0, 1, 2], [9, 9, 9]] ! i) = None
                  \<longrightarrow> valueList ! i = [])
             \<and> (valueList ! i = [] \<longleftrightarrow>
                  kv (GlobalStateDB (local_server stored_db)) ([[0, 1, 2], [9, 9, 9]] ! i) = None
                \<or> kv (GlobalStateDB (local_server stored_db)) ([[0, 1, 2], [9, 9, 9]] ! i) = Some [])"
    by blast
  from a s0 have v0: "valueList ! 0 = [0x78]" by simp
  from a s1 have v1: "valueList ! 1 = []" by simp
  from l obtain x y where "valueList = [x, y]"
    by (auto simp: length_Suc_conv)
  with v0 v1 have "valueList = [[0x78], []]" by simp
  with r have k: "fst (GlobalStateBatchGet offline_env (local_server stored_db)
      [[0, 1, 2], [9, 9, 9]]) = Inr [[0x78], []]"
    by simp
  show ?thesis by (intro conjI h1 h2 k)
qed

lemma batchGet_loop_copy_fails:
  "k \<in> set keyList \<Longrightarrow> txn_Get txn k = Inr item \<Longrightarrow> Item_ValueCopy txn item = Inl err \<Longrightarrow>
   \<exists>partial err'. batchGet_loop txn keyList acc = (partial, Some err')"
proof (induction keyList arbitrary: acc)
  case Nil
  then show ?case by simp
next
  case (Cons a keyList)
  show ?case
  proof (cases "a = k")
    case True
    then show ?thesis using Cons.prems by simp
  next
    case False
    then have "k \<in> set keyList" using Cons.prems by simp
    from Cons.IH [OF this Cons.prems(2,3)] show ?thesis
      by (auto split: sum.splits)
  qed
qed

text \<open>
  Claim C9. On a server with no remote node, when the key list holds a key whose lookup
  finds an item and whose value cannot be copied, the batch lookup returns an error, which
  names the operation, in place of a value list: the values collected before the failure
  are dropped.
\<close>

theorem batch_get_copy_failure_aborts:
  assumes "GlobalStateRemoteNode fes = ''''"
    and "k \<in> set keyList"
    and "txn_Get (GlobalStateDB fes) k = Inr item"
    and "Item_ValueCopy (GlobalStateDB fes) item = Inl err"
  shows "\<exists>err'. fst (GlobalStateBatchGet e fes keyList) =
            Inl (''GlobalStateBatchGet: Error copying value into new slice: ''
                   @ engine_error_text err')"
proof (cases "begin_fault (GlobalStateDB fes)")
  case None
  from batchGet_loop_copy_fails [OF assms(2,3,4), of "[]"]
  obtain partial err' where
    "batchGet_loop (GlobalStateDB fes) keyList [] = (partial, Some err')"
    by blast
  then show ?thesis using assms(1) None
    by (auto simp: GlobalStateBatchGet_def DB_View_def)
next
  case (Some msg)
  then show ?thesis using assms(1)
    by (auto simp: GlobalStateBatchGet_def DB_View_def intro: exI [of _ "ErrEngine msg"])
qed

theorem batch_get_copy_failure_aborts_witness:
  "GlobalStateRemoteNode (local_server copy_failing_db) = ''''
 \<and> [0, 1, 2] \<in> set [[9, 9, 9], [0, 1, 2 :: byte]]
 \<and> txn_Get (GlobalStateDB (local_server copy_failing_db)) [0, 1, 2] =
     Inr \<lparr>item_key = [0, 1, 2], item_value = [0x78]\<rparr>
 \<and> Item_ValueCopy (GlobalStateDB (local_server copy_failing_db))
     \<lparr>item_key = [0, 1, 2], item_value = [0x78]\<rparr> = Inl (ErrEngine ''checksum mismatch'')
 \<and> batchGet_loop copy_failing_db [[9, 9, 9], [0, 1, 2]] [] =
     ([[]], Some (ErrEngine ''checksum mismatch''))
 \<and> isl (fst (GlobalStateBatchGet offline_env (local_server copy_failing_db)
      [[9, 9, 9], [0, 1, 2]]))"
proof -
  have h1: "GlobalStateRemoteNode (local_server copy_failing_db) = ''''"
    by (simp add: sample_defs)
  have h2: "[0, 1, 2] \<in> set [[9, 9, 9], [0, 1, 2 :: byte]]"
    by simp
  have h3: "txn_Get (GlobalStateDB (local_server copy_failing_db)) [0, 1, 2] =
      Inr \<lparr>item_key = [0, 1, 2], item_value = [0x78]\<rparr>"
    by (simp add: sample_defs txn_Get_def)
  have h4: "Item_ValueCopy (GlobalStateDB (local_server copy_failing_db))
      \<lparr>item_key = [0, 1, 2], item_value = [0x78]\<rparr> = Inl (ErrEngine ''checksum mismatch'')"
    by (simp add: sample_defs Item_ValueCopy_def)
  have l: "batchGet_loop copy_failing_db [[9, 9, 9], [0, 1, 2]] [] =
      ([[]], Some (ErrEngine ''checksum mismatch''))"
    by (simp add: sample_defs txn_Get_def Item_ValueCopy_def)
  from batch_get_copy_failure_aborts [OF h1 h2 h3 h4, of offline_env]
  have k: "isl (fst (GlobalStateBatchGet offline_env (local_server copy_failing_db)
      [[9, 9, 9], [0, 1, 2]]))"
    by auto
  show ?thesis by (intro conjI h1 h2 h3 h4 l k)
qed

subsection \<open>Failures of the engine in a lookup\<close>

text \<open>
  Claim C4, as the code has it. On a server with no remote node, whatever error the point
  lookup of the engine returns, the missing key or any other, a get reports the key as
  absent: it returns the empty value and no error. The errors a get does return name the
  operation and come from a read transaction that cannot be opened or from a found item
  whose value cannot be copied.
\<close>

theorem get_reports_failed_lookup_as_absent:
  assumes "GlobalStateRemoteNode fes = ''''"
  shows "(\<forall>err. begin_fault (GlobalStateDB fes) = None
               \<and> txn_Get (GlobalStateDB fes) key = Inl err
            \<longrightarrow> fst (GlobalStateGet e fes key) = Inr [])
       \<and> (\<forall>msg. fst (GlobalStateGet e fes key) = Inl msg \<longrightarrow>
            (\<exists>fault. begin_fault (GlobalStateDB fes) = Some fault
               \<and> msg = ''GlobalStateGet: Error copying value into new slice: '' @ fault)
          \<or> (\<exists>item err. txn_Get (GlobalStateDB fes) key = Inr item
               \<and> Item_ValueCopy (GlobalStateDB fes) item = Inl err
               \<and> msg = ''GlobalStateGet: Error copying value into new slice: ''
                         @ engine_error_text err))"
  using assms
  by (auto simp: GlobalStateGet_def DB_View_def split: option.splits sum.splits)

text \<open>
  Claim C4 as stated fails: with an engine whose lookup fails on a disk error, a get of a
  stored key returns the empty value and no error.
\<close>

theorem get_swallows_lookup_failure:
  "kv (GlobalStateDB (local_server lookup_failing_db)) [0, 1, 2] = Some [0x78]
 \<and> txn_Get (GlobalStateDB (local_server lookup_failing_db)) [0, 1, 2] =
     Inl (ErrEngine ''disk I/O error'')
 \<and> GlobalStateGet offline_env (local_server lookup_failing_db) [0, 1, 2] =
     (Inr [], local_server lookup_failing_db, [DB_VIEW])"
  by (simp add: sample_defs GlobalStateGet_def DB_View_def txn_Get_def)

theorem get_reports_failed_lookup_as_absent_witness:
  "GlobalStateRemoteNode (local_server stored_db) = ''''
 \<and> begin_fault (GlobalStateDB (local_server stored_db)) = None
 \<and> txn_Get (GlobalStateDB (local_server stored_db)) [9, 9, 9] = Inl ErrKeyNotFound
 \<and> fst (GlobalStateGet offline_env (local_server stored_db) [9, 9, 9]) = Inr []"
proof -
  have h1: "GlobalStateRemoteNode (local_server stored_db) = ''''"
    by (simp add: sample_defs)
  have h2: "begin_fault (GlobalStateDB (local_server stored_db)) = None"
    by (simp add: sample_defs)
  have h3: "txn_Get (GlobalStateDB (local_server stored_db)) [9, 9, 9] = Inl ErrKeyNotFound"
    by (simp add: sample_defs txn_Get_def)
  from get_reports_failed_lookup_as_absent [OF h1, of "[9, 9, 9]" offline_env] h2 h3
  have k: "fst (GlobalStateGet offline_env (local_server stored_db) [9, 9, 9]) = Inr []"
    by blast
  show ?thesis by (intro conjI h1 h2 h3 k)
qed

subsection \<open>The dispatch\<close>






lemma remote_put:
  "GlobalStateRemoteNode fes \<noteq> '''' \<Longrightarrow>
   GlobalStatePut e fes key val =
        (case json_Marshal e (GlobalStatePutRemoteRequest key val) of
           Inl err \<Rightarrow>
             (Some (''GlobalStatePut: Error constructing request: ''
                @ ''GlobalStatePut: Could not marshal JSON: '' @ err), fes, [])
         | Inr body \<Rightarrow>
             (case http_Post e (remote_url fes RoutePathGlobalStatePutRemote)
                     ''application/json'' body of
                Inl err \<Rightarrow>
                  (Some ''GlobalStatePut: Error processing remote request'', fes,
                   [HTTP_POST (remote_url fes RoutePathGlobalStatePutRemote)
                      ''application/json'' body])
              | Inr res \<Rightarrow>
                  (None, fes,
                   [HTTP_POST (remote_url fes RoutePathGlobalStatePutRemote)
                      ''application/json'' body])))"
  by (auto simp: primitive_defs create_defs Let_def DB_View_def
      split: prod.splits sum.splits option.splits)

lemma remote_get:
  "GlobalStateRemoteNode fes \<noteq> '''' \<Longrightarrow>
   GlobalStateGet e fes key =
        (case json_Marshal e (GlobalStateGetRemoteRequest key) of
           Inl err \<Rightarrow>
             (Inl (''GlobalStateGet: Error constructing request: ''
                @ ''GlobalStateGet: Could not marshal JSON: '' @ err), fes, [])
         | Inr body \<Rightarrow>
             (case http_Post e (remote_url fes RoutePathGlobalStateGetRemote)
                     ''application/json'' body of
                Inl err \<Rightarrow>
                  (Inl ''GlobalStateGet: Error processing remote request'', fes,
                   [HTTP_POST (remote_url fes RoutePathGlobalStateGetRemote)
                      ''application/json'' body])
              | Inr res \<Rightarrow>
                  (Inr (json_Decode_Get e (Body res)), fes,
                   [HTTP_POST (remote_url fes RoutePathGlobalStateGetRemote)
                      ''application/json'' body])))"
  by (auto simp: primitive_defs create_defs Let_def DB_View_def
      split: prod.splits sum.splits option.splits)

lemma remote_batch_get:
  "GlobalStateRemoteNode fes \<noteq> '''' \<Longrightarrow>
   GlobalStateBatchGet e fes keyList =
        (case json_Marshal e (GlobalStateBatchGetRemoteRequest keyList) of
           Inl err \<Rightarrow>
             (Inl (''GlobalStateBatchGet: Error constructing request: ''
                @ ''GlobalStateBatchGet: Could not marshal JSON: '' @ err), fes, [])
         | Inr body \<Rightarrow>
             (case http_Post e (remote_url fes RoutePathGlobalStateBatchGetRemote)
                     ''application/json'' body of
                Inl err \<Rightarrow>
                  (Inl ''GlobalStateBatchGet: Error processing remote request'', fes,
                   [HTTP_POST (remote_url fes RoutePathGlobalStateBatchGetRemote)
                      ''application/json'' body])
              | Inr res \<Rightarrow>
                  (Inr (json_Decode_BatchGet e (Body res)), fes,
                   [HTTP_POST (remote_url fes RoutePathGlobalStateBatchGetRemote)
                      ''application/json'' body])))"
  by (auto simp: primitive_defs create_defs Let_def DB_View_def
      split: prod.splits sum.splits option.splits)

lemma remote_delete:
  "GlobalStateRemoteNode fes \<noteq> '''' \<Longrightarrow>
   GlobalStateDelete e fes key =
        (case json_Marshal e (GlobalStateDeleteRemoteRequest key) of
           Inl err \<Rightarrow>
             (Some (''GlobalStateDelete: Could not construct request: ''
                @ ''GlobalStateDelete: Could not marshal JSON: '' @ err), fes, [])
         | Inr body \<Rightarrow>
             (case http_Post e (remote_url fes RoutePathGlobalStateDeleteRemote)
                     ''application/json'' body of
                Inl err \<Rightarrow>
                  (Some ''GlobalStateDelete: Error processing remote request'', fes,
                   [HTTP_POST (remote_url fes RoutePathGlobalStateDeleteRemote)
                      ''application/json'' body])
              | Inr res \<Rightarrow>
                  (None, fes,
                   [HTTP_POST (remote_url fes RoutePathGlobalStateDeleteRemote)
                      ''application/json'' body])))"
  by (auto simp: primitive_defs create_defs Let_def DB_View_def
      split: prod.splits sum.splits option.splits)

lemma remote_seek:
  "GlobalStateRemoteNode fes \<noteq> '''' \<Longrightarrow>
   GlobalStateSeek e fes startPrefix validForPrefix maxKeyLen numToFetch reverse fetchValues =
        (case json_Marshal e (GlobalStateSeekRemoteRequest startPrefix validForPrefix maxKeyLen numToFetch reverse fetchValues) of
           Inl err \<Rightarrow>
             (Inl (''GlobalStateSeek: Error constructing request: ''
                @ ''GlobalStateSeek: Could not marshal JSON: '' @ err), fes, [])
         | Inr body \<Rightarrow>
             (case http_Post e (remote_url fes RoutePathGlobalStateSeekRemote)
                     ''application/json'' body of
                Inl err \<Rightarrow>
                  (Inl ''GlobalStateSeek: Error processing remote request'', fes,
                   [HTTP_POST (remote_url fes RoutePathGlobalStateSeekRemote)
                      ''application/json'' body])
              | Inr res \<Rightarrow>
                  (Inr (json_Decode_Seek e (Body res)), fes,
                   [HTTP_POST (remote_url fes RoutePathGlobalStateSeekRemote)
                      ''application/json'' body])))"
  by (auto simp: primitive_defs create_defs Let_def DB_View_def
      split: prod.splits sum.splits option.splits)



subsection \<open>Failures on the remote path\<close>

text \<open>
  Claim C5, as the code has it. On the remote path, for each of the five primitives whose
  request has been marshalled: when the HTTP POST fails with a transport error, the
  primitive returns an error, whose message names the operation and is the same for every
  transport error; when the POST returns a response, of whatever status code, the
  primitive returns a success result: no error for a put and a delete, and for a get, a
  batch get and a seek what the response body decodes to.
\<close>

theorem remote_error_only_on_transport_failure:
  assumes "GlobalStateRemoteNode fes \<noteq> ''''"
  shows
   "(json_Marshal e (GlobalStatePutRemoteRequest key val) = Inr body \<longrightarrow>
        (http_Post e (remote_url fes RoutePathGlobalStatePutRemote)
            ''application/json'' body = Inl err \<longrightarrow>
         fst (GlobalStatePut e fes key val) =
           Some ''GlobalStatePut: Error processing remote request'')
      \<and> (http_Post e (remote_url fes RoutePathGlobalStatePutRemote)
            ''application/json'' body = Inr res \<longrightarrow>
         fst (GlobalStatePut e fes key val) = None))
    \<and> (json_Marshal e (GlobalStateGetRemoteRequest key) = Inr body \<longrightarrow>
        (http_Post e (remote_url fes RoutePathGlobalStateGetRemote)
            ''application/json'' body = Inl err \<longrightarrow>
         fst (GlobalStateGet e fes key) =
           Inl ''GlobalStateGet: Error processing remote request'')
      \<and> (http_Post e (remote_url fes RoutePathGlobalStateGetRemote)
            ''application/json'' body = Inr res \<longrightarrow>
         fst (GlobalStateGet e fes key) = Inr (json_Decode_Get e (Body res))))
    \<and> (json_Marshal e (GlobalStateBatchGetRemoteRequest keyList) = Inr body \<longrightarrow>
        (http_Post e (remote_url fes RoutePathGlobalStateBatchGetRemote)
            ''application/json'' body = Inl err \<longrightarrow>
         fst (GlobalStateBatchGet e fes keyList) =
           Inl ''GlobalStateBatchGet: Error processing remote request'')
      \<and> (http_Post e (remote_url fes RoutePathGlobalStateBatchGetRemote)
            ''application/json'' body = Inr res \<longrightarrow>
         fst (GlobalStateBatchGet e fes keyList) = Inr (json_Decode_BatchGet e (Body res))))
    \<and> (json_Marshal e (GlobalStateDeleteRemoteRequest key) = Inr body \<longrightarrow>
        (http_Post e (remote_url fes RoutePathGlobalStateDeleteRemote)
            ''application/json'' body = Inl err \<longrightarrow>
         fst (GlobalStateDelete e fes key) =
           Some ''GlobalStateDelete: Error processing remote request'')
      \<and> (http_Post e (remote_url fes RoutePathGlobalStateDeleteRemote)
            ''application/json'' body = Inr res \<longrightarrow>
         fst (GlobalStateDelete e fes key) = None))
    \<and> (json_Marshal e (GlobalStateSeekRemoteRequest startPrefix validForPrefix maxKeyLen numToFetch reverse fetchValues) = Inr body \<longrightarrow>
        (http_Post e (remote_url fes RoutePathGlobalStateSeekRemote)
            ''application/json'' body = Inl err \<longrightarrow>
         fst (GlobalStateSeek e fes startPrefix validForPrefix maxKeyLen numToFetch reverse fetchValues) =
           Inl ''GlobalStateSeek: Error processing remote request'')
      \<and> (http_Post e (remote_url fes RoutePathGlobalStateSeekRemote)
            ''application/json'' body = Inr res \<longrightarrow>
         fst (GlobalStateSeek e fes startPrefix validForPrefix maxKeyLen numToFetch reverse fetchValues) = Inr (json_Decode_Seek e (Body res))))"
  using remote_put [OF assms, of e key val] remote_get [OF assms, of e key]
    remote_batch_get [OF assms, of e keyList] remote_delete [OF assms, of e key]
    remote_seek [OF assms, of e startPrefix validForPrefix maxKeyLen numToFetch reverse
      fetchValues]
  by simp

text \<open>
  Claim C5 as stated fails: when the remote owner answers a put with status 500, the put
  returns no error, and a get returns the body as decoded, here the empty value. When the
  POST fails, the error of the put is the same text for a refused connection and for a
  timeout: it does not carry the transport error.
\<close>

theorem remote_status_500_is_success:
  "GlobalStateRemoteNode remote_server \<noteq> ''''
 \<and> http_Post (sample_env (Inr \<lparr>StatusCode = 500, Body = []\<rparr>))
      ''https://owner.example/api/v1/global-state/put?shared_secret=s3cret''
      ''application/json'' [0x7B, 0x7D] = Inr \<lparr>StatusCode = 500, Body = []\<rparr>
 \<and> GlobalStatePut (sample_env (Inr \<lparr>StatusCode = 500, Body = []\<rparr>)) remote_server
      [0, 1, 2] [0x78] =
     (None, remote_server,
      [HTTP_POST ''https://owner.example/api/v1/global-state/put?shared_secret=s3cret''
         ''application/json'' [0x7B, 0x7D]])
 \<and> fst (GlobalStateGet (sample_env (Inr \<lparr>StatusCode = 500, Body = []\<rparr>)) remote_server
      [0, 1, 2]) = Inr []
 \<and> fst (GlobalStatePut (sample_env (Inl ''dial tcp: connection refused'')) remote_server
      [0, 1, 2] [0x78]) = Some ''GlobalStatePut: Error processing remote request''
 \<and> fst (GlobalStatePut (sample_env (Inl ''i/o timeout'')) remote_server
      [0, 1, 2] [0x78]) = Some ''GlobalStatePut: Error processing remote request''"
  by (simp add: sample_defs primitive_defs create_defs remote_url_def
      RoutePathGlobalStatePutRemote_def RoutePathGlobalStateGetRemote_def
      GlobalStateSharedSecretParam_def)

theorem remote_error_only_on_transport_failure_witness:
  "GlobalStateRemoteNode remote_server \<noteq> ''''
 \<and> json_Marshal offline_env (GlobalStateDeleteRemoteRequest [0, 1, 2]) = Inr [0x7B, 0x7D]
 \<and> http_Post offline_env (remote_url remote_server RoutePathGlobalStateDeleteRemote)
      ''application/json'' [0x7B, 0x7D] = Inl ''dial tcp: connection refused''
 \<and> fst (GlobalStateDelete offline_env remote_server [0, 1, 2]) =
     Some ''GlobalStateDelete: Error processing remote request''
 \<and> json_Marshal (sample_env (Inr \<lparr>StatusCode = 404, Body = [0x78]\<rparr>))
      (GlobalStateBatchGetRemoteRequest [[0, 1, 2]]) = Inr [0x7B, 0x7D]
 \<and> http_Post (sample_env (Inr \<lparr>StatusCode = 404, Body = [0x78]\<rparr>))
      (remote_url remote_server RoutePathGlobalStateBatchGetRemote)
      ''application/json'' [0x7B, 0x7D] = Inr \<lparr>StatusCode = 404, Body = [0x78]\<rparr>
 \<and> fst (GlobalStateBatchGet (sample_env (Inr \<lparr>StatusCode = 404, Body = [0x78]\<rparr>))
      remote_server [[0, 1, 2]]) = Inr [[0x78]]"
proof -
  let ?e = "sample_env (Inr \<lparr>StatusCode = 404, Body = [0x78]\<rparr>)"
  have h1: "GlobalStateRemoteNode remote_server \<noteq> ''''"
    by (simp add: sample_defs)
  have m1: "json_Marshal offline_env (GlobalStateDeleteRemoteRequest [0, 1, 2]) =
      Inr [0x7B, 0x7D]"
    by (simp add: sample_defs)
  have p1: "http_Post offline_env (remote_url remote_server RoutePathGlobalStateDeleteRemote)
      ''application/json'' [0x7B, 0x7D] = Inl ''dial tcp: connection refused''"
    by (simp add: sample_defs)
  from remote_error_only_on_transport_failure [OF h1, of offline_env _ _ "[0x7B, 0x7D]"
      "''dial tcp: connection refused''" _ _ _ "[0, 1, 2]"] m1 p1
  have k1: "fst (GlobalStateDelete offline_env remote_server [0, 1, 2]) =
      Some ''GlobalStateDelete: Error processing remote request''"
    by blast
  have m2: "json_Marshal ?e (GlobalStateBatchGetRemoteRequest [[0, 1, 2]]) = Inr [0x7B, 0x7D]"
    by (simp add: sample_defs)
  have p2: "http_Post ?e (remote_url remote_server RoutePathGlobalStateBatchGetRemote)
      ''application/json'' [0x7B, 0x7D] = Inr \<lparr>StatusCode = 404, Body = [0x78]\<rparr>"
    by (simp add: sample_defs)
  have dec: "json_Decode_BatchGet ?e (Body \<lparr>StatusCode = 404, Body = [0x78]\<rparr>) = [[0x78]]"
    by (simp add: sample_defs)
  from remote_error_only_on_transport_failure [OF h1, where e="?e" and body="[0x7B, 0x7D]"
      and res="\<lparr>StatusCode = 404, Body = [0x78]\<rparr>" and keyList="[[0, 1, 2]]"] m2 p2
  have "fst (GlobalStateBatchGet ?e remote_server [[0, 1, 2]]) =
      Inr (json_Decode_BatchGet ?e (Body \<lparr>StatusCode = 404, Body = [0x78]\<rparr>))"
    by blast
  then have k2: "fst (GlobalStateBatchGet ?e remote_server [[0, 1, 2]]) = Inr [[0x78]]"
    by (simp only: dec)
  show ?thesis by (intro conjI h1 m1 p1 k1 m2 p2 k2)
qed

section \<open>Aliasing of the key constructors\<close>

lemma take_prefix_le:
  assumes "take (length h0) h = h0"
  shows "length h0 \<le> length h"
proof -
  have "length (take (length h0) h) = length h0" using assms by simp
  then show ?thesis by simp
qed

lemma take_prefix_nth:
  assumes "take (length h0) h = h0" and "a < length h0"
  shows "h ! a = h0 ! a"
proof -
  have "take (length h0) h ! a = h ! a" using assms(2) by simp
  then show ?thesis using assms(1) by simp
qed

lemma slice_bytes_frame:
  "valid_slice h0 s \<Longrightarrow> take (length h0) h = h0 \<Longrightarrow> slice_bytes h s = slice_bytes h0 s"
  by (auto simp: valid_slice_def slice_bytes_def take_prefix_nth split: option.splits)

lemma length_slice_bytes: "valid_slice h s \<Longrightarrow> length (slice_bytes h s) = len s"
  by (auto simp: valid_slice_def slice_bytes_def split: option.splits)

lemma append_first:
  "xs \<noteq> [] \<Longrightarrow> go_append growcap h empty_slice xs = (s, h') \<Longrightarrow>
   owned_since h h' s \<and> slice_bytes h' s = xs"
  by (auto simp: go_append_def empty_slice_def Let_def owned_since_def valid_slice_def
      slice_bytes_def)

lemma append_next:
  assumes "owned_since h0 h s" and "go_append growcap h s xs = (s', h')"
  shows "owned_since h0 h' s' \<and> slice_bytes h' s' = slice_bytes h s @ xs"
proof -
  from assms(1) obtain a where a: "arr s = Some a" "length h0 \<le> a" "a < length h"
    "len s \<le> cap s" "off s + cap s \<le> length (h ! a)" and pre: "take (length h0) h = h0"
    by (auto simp: owned_since_def valid_slice_def split: option.splits)
  show ?thesis
  proof (cases "len s + length xs \<le> cap s")
    case True
    then have eq: "s' = s\<lparr>len := len s + length xs\<rparr>"
      "h' = h[a := write_at (h ! a) (off s + len s) xs]"
      using assms(2) a by (auto simp: go_append_def Let_def)
    have "take (length h0) h' = h0" using pre a eq by simp
    moreover have "valid_slice h' s'" using a True eq by (simp add: valid_slice_def write_at_def)
    moreover have "slice_bytes h' s' = slice_bytes h s @ xs"
      using a True eq by (simp add: slice_bytes_def write_at_def take_add)
    ultimately show ?thesis using a eq by (simp add: owned_since_def)
  next
    case False
    let ?n = "len s + length xs"
    let ?c = "max ?n (growcap (cap s) ?n)"
    from False have "s' = \<lparr>arr = Some (length h), off = 0, len = ?n, cap = ?c\<rparr>"
      and "h' = h @ [slice_bytes h s @ xs @ replicate (?c - ?n) 0]"
      using assms(2) by (auto simp: go_append_def Let_def)
    moreover have "length (slice_bytes h s) = len s"
      using assms(1) by (simp add: owned_since_def length_slice_bytes)
    moreover have "length h0 \<le> length h" using a by simp
    ultimately show ?thesis using pre
      by (auto simp: owned_since_def valid_slice_def slice_bytes_def)
  qed
qed

lemma new_bytes_owned:
  "owned_since h0 h s \<Longrightarrow> new_bytes h bs = (t, h') \<Longrightarrow>
   owned_since h0 h' s \<and> slice_bytes h' s = slice_bytes h s \<and> slice_bytes h' t = bs"
  by (auto simp: new_bytes_def owned_since_def valid_slice_def slice_bytes_def nth_append
      split: option.splits)

lemma prefixes_okD:
  "prefixes_ok prefixVar h \<Longrightarrow>
   valid_slice h (prefixVar k) \<and> slice_bytes h (prefixVar k) = prefix_of_kind k"
  by (cases k) (simp_all add: prefixes_ok_def all_kinds_def)

lemma prefix_nonempty: "prefix_of_kind k \<noteq> []"
  by (cases k) (simp_all add: prefix_defs)

lemma prefix_then_input:
  assumes "prefixes_ok prefixVar h" and "valid_slice h inp"
    and "go_append growcap h empty_slice (slice_bytes h (prefixVar k)) = (s1, h1)"
    and "go_append growcap h1 s1 (slice_bytes h1 inp) = (s2, h2)"
  shows "owned_since h h2 s2 \<and> slice_bytes h2 s2 = prefix_of_kind k @ slice_bytes h inp"
proof -
  have p: "slice_bytes h (prefixVar k) = prefix_of_kind k"
    using assms(1) prefixes_okD by blast
  have 1: "owned_since h h1 s1 \<and> slice_bytes h1 s1 = prefix_of_kind k"
    using append_first [OF _ assms(3)] p prefix_nonempty by simp
  then have "take (length h) h1 = h" by (simp add: owned_since_def)
  then have i: "slice_bytes h1 inp = slice_bytes h inp"
    using assms(2) slice_bytes_frame by blast
  have "owned_since h h2 s2 \<and> slice_bytes h2 s2 = slice_bytes h1 s1 @ slice_bytes h1 inp"
    using append_next [OF _ assms(4)] 1 by blast
  then show ?thesis using 1 i by simp
qed

lemma prefix_and_input_fresh:
  assumes "prefixes_ok prefixVar h" and "valid_slice h inp"
  shows "returns_fresh h
     (case go_append growcap h empty_slice (slice_bytes h (prefixVar k)) of
        (key, h') \<Rightarrow>
          (case go_append growcap h' key (slice_bytes h' inp) of (key, h'') \<Rightarrow> (key, h'')))
     (prefix_of_kind k @ slice_bytes h inp)"
proof -
  obtain s1 h1 where 1: "go_append growcap h empty_slice (slice_bytes h (prefixVar k)) = (s1, h1)"
    by fastforce
  obtain s2 h2 where 2: "go_append growcap h1 s1 (slice_bytes h1 inp) = (s2, h2)"
    by fastforce
  show ?thesis using prefix_then_input [OF assms 1 2] 1 2 by (simp add: returns_fresh_def)
qed

lemma read_cursor_key_fresh:
  assumes "prefixes_ok prefixVar h" and "valid_slice h inp1" and "valid_slice h inp2"
  shows "returns_fresh h
     (GlobalStateKeyForUserPkContactPkToMostRecentReadTstampNanos_mem growcap prefixVar h inp1 inp2)
     (GlobalStateKeyForUserPkContactPkToMostRecentReadTstampNanos (slice_bytes h inp1)
        (slice_bytes h inp2))"
proof -
  let ?k = KindMostRecentReadTstampNanos
  obtain s1 h1 where 1: "go_append growcap h empty_slice (slice_bytes h (prefixVar ?k)) = (s1, h1)"
    by fastforce
  obtain s2 h2 where 2: "go_append growcap h1 s1 (slice_bytes h1 inp1) = (s2, h2)"
    by fastforce
  obtain s3 h3 where 3: "go_append growcap h2 s2 (slice_bytes h2 inp2) = (s3, h3)"
    by fastforce
  have a: "owned_since h h2 s2" "slice_bytes h2 s2 = prefix_of_kind ?k @ slice_bytes h inp1"
    using prefix_then_input [OF assms(1,2) 1 2] by simp_all
  then have "take (length h) h2 = h" by (simp add: owned_since_def)
  then have i: "slice_bytes h2 inp2 = slice_bytes h inp2"
    using assms(3) slice_bytes_frame by blast
  have "owned_since h h3 s3 \<and> slice_bytes h3 s3 = slice_bytes h2 s2 @ slice_bytes h2 inp2"
    using append_next [OF a(1) 3] .
  then show ?thesis using a i 1 2 3
    by (simp add: returns_fresh_def
        GlobalStateKeyForUserPkContactPkToMostRecentReadTstampNanos_mem_def
        GlobalStateKeyForUserPkContactPkToMostRecentReadTstampNanos_def)
qed

lemma prefix_then_value:
  assumes "prefixes_ok prefixVar h"
    and "go_append growcap h empty_slice (slice_bytes h (prefixVar k)) = (s1, h1)"
    and "new_bytes h1 bs = (t, h2)"
    and "go_append growcap h2 s1 (slice_bytes h2 t) = (s3, h3)"
  shows "owned_since h h3 s3 \<and> slice_bytes h3 s3 = prefix_of_kind k @ bs"
proof -
  have p: "slice_bytes h (prefixVar k) = prefix_of_kind k"
    using assms(1) prefixes_okD by blast
  have 1: "owned_since h h1 s1 \<and> slice_bytes h1 s1 = prefix_of_kind k"
    using append_first [OF _ assms(2)] p prefix_nonempty by simp
  then have 2: "owned_since h h2 s1 \<and> slice_bytes h2 s1 = slice_bytes h1 s1
      \<and> slice_bytes h2 t = bs"
    using new_bytes_owned [OF _ assms(3)] by blast
  then have "owned_since h h3 s3 \<and> slice_bytes h3 s3 = slice_bytes h2 s1 @ slice_bytes h2 t"
    using append_next [OF _ assms(4)] by blast
  then show ?thesis using 1 2 by simp
qed

lemma username_key_fresh:
  assumes "prefixes_ok prefixVar h"
  shows "returns_fresh h
     (GlobalStateKeyForUsernameVerificationAuditLogs_mem growcap prefixVar h unicodeLower username)
     (GlobalStateKeyForUsernameVerificationAuditLogs unicodeLower username)"
proof -
  let ?k = KindUsernameVerificationAuditLog
  obtain s1 h1 where 1: "go_append growcap h empty_slice (slice_bytes h (prefixVar ?k)) = (s1, h1)"
    by fastforce
  obtain t h2 where 2: "new_bytes h1 (strings_ToLower unicodeLower username) = (t, h2)"
    by fastforce
  obtain s3 h3 where 3: "go_append growcap h2 s1 (slice_bytes h2 t) = (s3, h3)"
    by fastforce
  show ?thesis using prefix_then_value [OF assms 1 2 3] 1 2 3
    by (simp add: returns_fresh_def GlobalStateKeyForUsernameVerificationAuditLogs_mem_def
        GlobalStateKeyForUsernameVerificationAuditLogs_def)
qed

lemma tstamp_key_fresh:
  assumes "prefixes_ok prefixVar h" and "valid_ptr h postHash"
  shows "returns_fresh_or_panics h
     (case go_append growcap h empty_slice (slice_bytes h (prefixVar k)) of
        (key, h') \<Rightarrow>
          (case new_bytes h' (EncodeUint64 t) of
             (encoded, h') \<Rightarrow>
               (case go_append growcap h' key (slice_bytes h' encoded) of
                  (key, h') \<Rightarrow>
                    (case postHash of
                       None \<Rightarrow> Inl NilPointerDereference
                     | Some a \<Rightarrow>
                         (case go_append growcap h' key (h' ! a) of
                            (key, h') \<Rightarrow> Inr (key, h'))))))
     (case postHash of
        None \<Rightarrow> Inl NilPointerDereference
      | Some a \<Rightarrow> Inr (prefix_of_kind k @ EncodeUint64 t @ h ! a))"
proof (cases postHash)
  case None
  then show ?thesis by (simp add: returns_fresh_or_panics_def split: prod.splits)
next
  case (Some a)
  obtain s1 h1 where 1: "go_append growcap h empty_slice (slice_bytes h (prefixVar k)) = (s1, h1)"
    by fastforce
  obtain enc h2 where 2: "new_bytes h1 (EncodeUint64 t) = (enc, h2)"
    by fastforce
  obtain s3 h3 where 3: "go_append growcap h2 s1 (slice_bytes h2 enc) = (s3, h3)"
    by fastforce
  obtain s4 h4 where 4: "go_append growcap h3 s3 (h3 ! a) = (s4, h4)"
    by fastforce
  have o3: "owned_since h h3 s3" "slice_bytes h3 s3 = prefix_of_kind k @ EncodeUint64 t"
    using prefix_then_value [OF assms(1) 1 2 3] by simp_all
  then have "take (length h) h3 = h" by (simp add: owned_since_def)
  moreover have "a < length h" using assms(2) Some by (simp add: valid_ptr_def)
  ultimately have i: "h3 ! a = h ! a" by (rule take_prefix_nth)
  have "owned_since h h4 s4 \<and> slice_bytes h4 s4 = slice_bytes h3 s3 @ h3 ! a"
    using append_next [OF o3(1) 4] .
  then show ?thesis using Some o3 i 1 2 3 4
    by (simp add: returns_fresh_or_panics_def returns_fresh_def)
qed

text \<open>
  Claim C10. Every key constructor, called in any heap in which the prefix variables hold
  their prefixes and the arguments are slices of the heap, whatever they share: leaves
  every array that existed before the call as it was, so the prefix variables, the
  arguments and the keys returned by earlier calls read as before; and returns a slice in
  an array allocated during the call, which holds the key. The two timestamp constructors
  panic on a nil hash pointer and do the same otherwise.
\<close>

theorem key_constructors_return_fresh_slices:
  assumes "prefixes_ok prefixVar h"
    and "valid_slice h phoneNumberBytes" and "valid_slice h profilePubKey"
    and "valid_slice h userPubKey" and "valid_slice h contactPubKey"
    and "valid_ptr h postHash"
  shows "returns_fresh h
           (globalStateKeyForPhoneNumberBytesToPhoneNumberMetadata_mem growcap prefixVar h
              phoneNumberBytes)
           (globalStateKeyForPhoneNumberBytesToPhoneNumberMetadata (slice_bytes h phoneNumberBytes))
       \<and> returns_fresh h
           (GlobalStateKeyForPublicKeyToUserMetadata_mem growcap prefixVar h profilePubKey)
           (GlobalStateKeyForPublicKeyToUserMetadata (slice_bytes h profilePubKey))
       \<and> returns_fresh_or_panics h
           (GlobalStateKeyForTstampPostHash_mem growcap prefixVar h tstampNanos postHash)
           (GlobalStateKeyForTstampPostHash tstampNanos (map_option (nth h) postHash))
       \<and> returns_fresh_or_panics h
           (GlobalStateKeyForTstampPinnedPostHash_mem growcap prefixVar h tstampNanos postHash)
           (GlobalStateKeyForTstampPinnedPostHash tstampNanos (map_option (nth h) postHash))
       \<and> returns_fresh h
           (GlobalStateKeyForUsernameVerificationAuditLogs_mem growcap prefixVar h unicodeLower
              username)
           (GlobalStateKeyForUsernameVerificationAuditLogs unicodeLower username)
       \<and> returns_fresh h
           (GlobalStateKeyForGraylistedProfile_mem growcap prefixVar h profilePubKey)
           (GlobalStateKeyForGraylistedProfile (slice_bytes h profilePubKey))
       \<and> returns_fresh h
           (GlobalStateKeyForBlacklistedProfile_mem growcap prefixVar h profilePubKey)
           (GlobalStateKeyForBlacklistedProfile (slice_bytes h profilePubKey))
       \<and> returns_fresh h
           (GlobalStateKeyForUserPkContactPkToMostRecentReadTstampNanos_mem growcap prefixVar h
              userPubKey contactPubKey)
           (GlobalStateKeyForUserPkContactPkToMostRecentReadTstampNanos
              (slice_bytes h userPubKey) (slice_bytes h contactPubKey))"
proof -
  have 1: "returns_fresh h
           (globalStateKeyForPhoneNumberBytesToPhoneNumberMetadata_mem growcap prefixVar h
              phoneNumberBytes)
           (globalStateKeyForPhoneNumberBytesToPhoneNumberMetadata (slice_bytes h phoneNumberBytes))"
    using prefix_and_input_fresh [OF assms(1,2), where growcap=growcap
        and k=KindPhoneNumberMetadata]
    by (simp add: globalStateKeyForPhoneNumberBytesToPhoneNumberMetadata_mem_def
        globalStateKeyForPhoneNumberBytesToPhoneNumberMetadata_def)
  have 2: "returns_fresh h
           (GlobalStateKeyForPublicKeyToUserMetadata_mem growcap prefixVar h profilePubKey)
           (GlobalStateKeyForPublicKeyToUserMetadata (slice_bytes h profilePubKey))"
    using prefix_and_input_fresh [OF assms(1,3), where growcap=growcap and k=KindUserMetadata]
    by (simp add: GlobalStateKeyForPublicKeyToUserMetadata_mem_def
        GlobalStateKeyForPublicKeyToUserMetadata_def)
  have 3: "returns_fresh_or_panics h
           (GlobalStateKeyForTstampPostHash_mem growcap prefixVar h tstampNanos postHash)
           (GlobalStateKeyForTstampPostHash tstampNanos (map_option (nth h) postHash))"
    using tstamp_key_fresh [OF assms(1,6), where growcap=growcap and k=KindTstampPostHash
        and t=tstampNanos]
    by (simp add: GlobalStateKeyForTstampPostHash_mem_def GlobalStateKeyForTstampPostHash_def
        split: option.splits)
  have 4: "returns_fresh_or_panics h
           (GlobalStateKeyForTstampPinnedPostHash_mem growcap prefixVar h tstampNanos postHash)
           (GlobalStateKeyForTstampPinnedPostHash tstampNanos (map_option (nth h) postHash))"
    using tstamp_key_fresh [OF assms(1,6), where growcap=growcap
        and k=KindTstampPinnedPostHash and t=tstampNanos]
    by (simp add: GlobalStateKeyForTstampPinnedPostHash_mem_def
        GlobalStateKeyForTstampPinnedPostHash_def split: option.splits)
  have 5: "returns_fresh h
           (GlobalStateKeyForUsernameVerificationAuditLogs_mem growcap prefixVar h unicodeLower
              username)
           (GlobalStateKeyForUsernameVerificationAuditLogs unicodeLower username)"
    using assms(1) by (rule username_key_fresh)
  have 6: "returns_fresh h
           (GlobalStateKeyForGraylistedProfile_mem growcap prefixVar h profilePubKey)
           (GlobalStateKeyForGraylistedProfile (slice_bytes h profilePubKey))"
    using prefix_and_input_fresh [OF assms(1,3), where growcap=growcap and k=KindGraylistState]
    by (simp add: GlobalStateKeyForGraylistedProfile_mem_def
        GlobalStateKeyForGraylistedProfile_def)
  have 7: "returns_fresh h
           (GlobalStateKeyForBlacklistedProfile_mem growcap prefixVar h profilePubKey)
           (GlobalStateKeyForBlacklistedProfile (slice_bytes h profilePubKey))"
    using prefix_and_input_fresh [OF assms(1,3), where growcap=growcap and k=KindBlacklistState]
    by (simp add: GlobalStateKeyForBlacklistedProfile_mem_def
        GlobalStateKeyForBlacklistedProfile_def)
  have 8: "returns_fresh h
           (GlobalStateKeyForUserPkContactPkToMostRecentReadTstampNanos_mem growcap prefixVar h
              userPubKey contactPubKey)
           (GlobalStateKeyForUserPkContactPkToMostRecentReadTstampNanos
              (slice_bytes h userPubKey) (slice_bytes h contactPubKey))"
    using assms(1,4,5) by (rule read_cursor_key_fresh)
  show ?thesis by (intro conjI 1 2 3 4 5 6 7 8)
qed

lemmas sample_heap_defs =
  sample_heap_def sample_prefixVar_def sample_pubkey_def sample_contact_def sample_growcap_def

theorem key_constructors_return_fresh_slices_witness:
  "prefixes_ok sample_prefixVar sample_heap
 \<and> valid_slice sample_heap sample_pubkey
 \<and> valid_slice sample_heap sample_contact
 \<and> valid_ptr sample_heap (Some 10)
 \<and> GlobalStateKeyForUserPkContactPkToMostRecentReadTstampNanos_mem sample_growcap
      sample_prefixVar sample_heap sample_pubkey sample_contact =
     (\<lparr>arr = Some 11, off = 0, len = 6, cap = 8\<rparr>,
      sample_heap @ [[8, 0xAA, 0xBB, 0xCC, 0x11, 0x22, 0, 0]])
 \<and> returns_fresh sample_heap
      (GlobalStateKeyForUserPkContactPkToMostRecentReadTstampNanos_mem sample_growcap
         sample_prefixVar sample_heap sample_pubkey sample_contact)
      [8, 0xAA, 0xBB, 0xCC, 0x11, 0x22]
 \<and> returns_fresh sample_heap
      (GlobalStateKeyForGraylistedProfile_mem sample_growcap sample_prefixVar sample_heap
         sample_pubkey)
      [6, 0xAA, 0xBB, 0xCC]"
proof -
  have h1: "prefixes_ok sample_prefixVar sample_heap"
    by (simp add: prefixes_ok_def all_kinds_def valid_slice_def slice_bytes_def sample_heap_defs
        prefix_defs)
  have h2: "valid_slice sample_heap sample_pubkey"
    by (simp add: valid_slice_def sample_heap_defs)
  have h3: "valid_slice sample_heap sample_contact"
    by (simp add: valid_slice_def sample_heap_defs)
  have h4: "valid_ptr sample_heap (Some 10)"
    by (simp add: valid_ptr_def sample_heap_defs)
  have v: "GlobalStateKeyForUserPkContactPkToMostRecentReadTstampNanos_mem sample_growcap
      sample_prefixVar sample_heap sample_pubkey sample_contact =
     (\<lparr>arr = Some 11, off = 0, len = 6, cap = 8\<rparr>,
      sample_heap @ [[8, 0xAA, 0xBB, 0xCC, 0x11, 0x22, 0, 0]])"
    by (simp add: GlobalStateKeyForUserPkContactPkToMostRecentReadTstampNanos_mem_def
        go_append_def empty_slice_def slice_bytes_def write_at_def sample_heap_defs Let_def
        nth_append eval_nat_numeral)
  note c = key_constructors_return_fresh_slices [OF h1 h2 h2 h2 h3 h4,
      where growcap=sample_growcap and tstampNanos=0 and unicodeLower=sample_unicodeLower and username="[]"]
  have s1: "slice_bytes sample_heap sample_pubkey = [0xAA, 0xBB, 0xCC]"
    and s2: "slice_bytes sample_heap sample_contact = [0x11, 0x22]"
    by (simp_all add: slice_bytes_def sample_heap_defs)
  from c have "returns_fresh sample_heap
      (GlobalStateKeyForUserPkContactPkToMostRecentReadTstampNanos_mem sample_growcap
         sample_prefixVar sample_heap sample_pubkey sample_contact)
      (GlobalStateKeyForUserPkContactPkToMostRecentReadTstampNanos
         (slice_bytes sample_heap sample_pubkey) (slice_bytes sample_heap sample_contact))"
    by blast
  then have k8: "returns_fresh sample_heap
      (GlobalStateKeyForUserPkContactPkToMostRecentReadTstampNanos_mem sample_growcap
         sample_prefixVar sample_heap sample_pubkey sample_contact)
      [8, 0xAA, 0xBB, 0xCC, 0x11, 0x22]"
    by (simp add: s1 s2 key_defs prefix_defs)
  from c have "returns_fresh sample_heap
      (GlobalStateKeyForGraylistedProfile_mem sample_growcap sample_prefixVar sample_heap
         sample_pubkey)
      (GlobalStateKeyForGraylistedProfile (slice_bytes sample_heap sample_pubkey))"
    by blast
  then have k6: "returns_fresh sample_heap
      (GlobalStateKeyForGraylistedProfile_mem sample_growcap sample_prefixVar sample_heap
         sample_pubkey)
      [6, 0xAA, 0xBB, 0xCC]"
    by (simp add: s1 key_defs prefix_defs)
  show ?thesis by (intro conjI h1 h2 h3 h4 v k8 k6)
qed

end
